theory Spec2Isabelle
  imports Complex_Main
begin

section \<open>Payroll engine of the payroll-management-system backend\<close>

text \<open>
  The development embeds the payroll controller
  (\<^verbatim>\<open>backend/controllers/leaveController.js\<close>, second module of the file:
  \<^verbatim>\<open>generatePayroll\<close>, \<^verbatim>\<open>calculatePayroll\<close>, \<^verbatim>\<open>calculateTax\<close>,
  \<^verbatim>\<open>getWorkingDays\<close>, \<^verbatim>\<open>approvePayroll\<close>, \<^verbatim>\<open>rejectPayroll\<close>,
  \<^verbatim>\<open>generateBulkPayroll\<close>) together with what \<^verbatim>\<open>save()\<close> does under the
  Payroll schema (\<^verbatim>\<open>backend/models/index.js\<close>) and the AuditLog schema
  (\<^verbatim>\<open>backend/models/AuditLog.js\<close>).

  Modelling conventions.
  \<^item> A JavaScript Number that holds an amount of money, a rate or a number of hours is a
    rational number: the arithmetic of the source is read as exact arithmetic, IEEE-754
    rounding is not modelled. Day counts and time values (milliseconds since the epoch)
    are integers.
  \<^item> A field that may be \<^verbatim>\<open>undefined\<close> or \<^verbatim>\<open>null\<close> is an \<open>option\<close>;
    the idiom \<^verbatim>\<open>x || 0\<close> is \<open>orZero\<close>.
  \<^item> The collections behind the Mongoose models are lists of documents; a query is a
    filter over the list. Employee, attendance and leave documents carry the fields the
    calculator reads. Payroll and audit-log documents carry the paths of their schemas:
    a document built from an object literal keeps the literal's keys that are schema paths
    and no others, and \<^verbatim>\<open>save()\<close> runs the schema's validators, then the schema's
    \<^verbatim>\<open>pre('save')\<close> hook, then writes, or throws and writes nothing.
  \<^item> Dates follow the ECMAScript definitions (\<^verbatim>\<open>MakeDay\<close>, \<^verbatim>\<open>WeekDay\<close>,
    \<^verbatim>\<open>TimeClip\<close>) with the local time zone taken to be UTC.
  \<^item> A handler takes the collections, the request and the current time, and returns its
    response with the collections after it. The month and the year of a request are
    integers. Two settings of the library that the repository does not fix, and whose
    defaults differ between the library's versions, are a parameter of the handlers
    (\<open>lib_settings\<close>).
\<close>

subsection \<open>Numbers and dates\<close>

definition orZero :: "rat option \<Rightarrow> rat" where
  \<comment> \<open>\<^verbatim>\<open>x || 0\<close>: a missing value, and the falsy value 0 itself, give 0.\<close>
  "orZero x = (case x of None \<Rightarrow> 0 | Some v \<Rightarrow> v)"

definition msPerDay :: int where
  \<comment> \<open>\<^verbatim>\<open>1000 * 60 * 60 * 24\<close>\<close>
  "msPerDay = 1000 * 60 * 60 * 24"

definition DayFromYear :: "int \<Rightarrow> int" where
  "DayFromYear y =
     365 * (y - 1970) + (y - 1969) div 4 - (y - 1901) div 100 + (y - 1601) div 400"

definition InLeapYear :: "int \<Rightarrow> bool" where
  "InLeapYear y = (y mod 4 = 0 \<and> (y mod 100 \<noteq> 0 \<or> y mod 400 = 0))"

definition monthStart :: "int \<Rightarrow> bool \<Rightarrow> int" where
  \<comment> \<open>Number of days of the year that precede month \<open>mn\<close> (0 = January).\<close>
  "monthStart mn leap =
     [0, 31, 59, 90, 120, 151, 181, 212, 243, 273, 304, 334] ! nat mn
       + (if leap \<and> 2 \<le> mn then 1 else 0)"

definition MakeDay :: "int \<Rightarrow> int \<Rightarrow> int \<Rightarrow> int" where
  \<comment> \<open>Day number of \<open>(year, month index, date)\<close>; the month index may lie outside 0..11 and
      the date outside the month, as in \<^verbatim>\<open>new Date(year, month, 0)\<close>.\<close>
  "MakeDay year month dt =
     (let ym = year + month div 12; mn = month mod 12
      in DayFromYear ym + monthStart mn (InLeapYear ym) + dt - 1)"

definition newDate :: "int \<Rightarrow> int \<Rightarrow> int \<Rightarrow> int option" where
  \<comment> \<open>\<^verbatim>\<open>new Date(year, monthIndex, day)\<close>: the time value in milliseconds, or \<open>None\<close> for
      an Invalid Date (time value outside \<open>\<plusminus>8.64e15\<close>). Years 0..99 mean 1900..1999.\<close>
  "newDate year monthIndex day =
     (let yr = (if 0 \<le> year \<and> year \<le> 99 then 1900 + year else year);
          tv = MakeDay yr monthIndex day * msPerDay
      in if \<bar>tv\<bar> \<le> 8640000000000000 then Some tv else None)"

definition getDay :: "int \<Rightarrow> int" where
  \<comment> \<open>\<^verbatim>\<open>Date.prototype.getDay\<close>: 0 is Sunday, 6 is Saturday.\<close>
  "getDay t = (t div msPerDay + 4) mod 7"

function getWorkingDays_loop :: "int \<Rightarrow> int \<Rightarrow> nat \<Rightarrow> nat" where
  "getWorkingDays_loop currentDate endDate workingDays =
     (if currentDate \<le> endDate
      then getWorkingDays_loop (currentDate + msPerDay) endDate
             (if getDay currentDate \<noteq> 0 \<and> getDay currentDate \<noteq> 6
              then workingDays + 1 else workingDays)
      else workingDays)"
  by pat_completeness auto
termination
  by (relation "measure (\<lambda>(c, e, w). nat (e - c + 1))") (auto simp: msPerDay_def)

declare getWorkingDays_loop.simps [simp del]

definition getWorkingDays :: "int \<Rightarrow> int \<Rightarrow> nat" where
  "getWorkingDays startDate endDate = getWorkingDays_loop startDate endDate 0"

subsection \<open>Income tax\<close>

definition calculateTax :: "rat \<Rightarrow> rat" where
  "calculateTax grossPay =
     (let annualIncome = grossPay * 12;
          tax = (if annualIncome \<le> 250000 then 0
                 else if annualIncome \<le> 500000 then (annualIncome - 250000) * (5 / 100)
                 else if annualIncome \<le> 1000000 then 12500 + (annualIncome - 500000) * (20 / 100)
                 else 112500 + (annualIncome - 1000000) * (30 / 100))
      in tax / 12)"

text \<open>The bracket table of the specification, a function of the annual income.\<close>

definition spec_annualTax :: "rat \<Rightarrow> rat" where
  "spec_annualTax a =
     (if a \<le> 250000 then 0
      else if a \<le> 500000 then (a - 250000) * (5 / 100)
      else if a \<le> 1000000 then 12500 + (a - 500000) * (20 / 100)
      else 112500 + (a - 1000000) * (30 / 100))"

subsection \<open>Documents and collections\<close>

text \<open>
  The documents carry the fields the payroll controller reads. Allowances have the same
  five keys in the employee's salary configuration (optional values) and in the payroll
  breakdown (numbers), hence the type parameter.
\<close>

record 'a allowances_rec =
  hra :: 'a
  transport :: 'a
  medical :: 'a
  food :: 'a
  otherAllowance :: 'a

record salary_deductions =
  cfg_professional :: "rat option"
  cfg_other :: "rat option"

record salary_rec =
  basic :: "rat option"
  salary_allowances :: "rat option allowances_rec option"
  salary_deductions :: "salary_deductions option"

record leaveBalance_rec =
  annual :: "rat option"

record employee =
  emp_id :: string
  firstName :: string
  lastName :: string
  emp_department :: "string option"
  emp_status :: string
  salary :: "salary_rec option"
  leaveBalance :: "leaveBalance_rec option"

record attendance =
  att_employee :: string
  att_date :: int
  checkInTime :: "int option"
  hoursWorked :: "rat option"

record leave =
  lv_employee :: string
  lv_status :: string
  startDate :: int
  endDate :: int
  numberOfDays :: int

record deductions_rec =
  tax :: rat
  pf :: rat
  esi :: rat
  professional :: rat
  otherDeduction :: rat
  unpaidLeave :: rat

text \<open>The object \<^verbatim>\<open>calculatePayroll\<close> returns.\<close>

record payroll_data =
  basicSalary :: rat
  allowances :: "rat allowances_rec"
  deductions :: deductions_rec
  overtimeHours :: rat
  overtimeAmount :: rat
  grossPay :: rat
  netPay :: rat
  taxAmount :: rat
  attendanceDays :: nat
  workingDays :: nat
  leaveDays :: int

text \<open>
  A payroll document, with the paths of the Payroll schema. A required path that has no
  value is \<open>None\<close>; the allowances and the deductions have the default 0 and are always
  numbers. The prefixes stand for the nested paths: \<open>pp\<close> for \<^verbatim>\<open>payrollPeriod\<close>,
  \<open>ss\<close> for \<^verbatim>\<open>salaryStructure\<close>, \<open>sa\<close> for \<^verbatim>\<open>salaryStructure.allowances\<close>,
  \<open>wd\<close> for \<^verbatim>\<open>workingDays\<close>, \<open>wh\<close> for \<^verbatim>\<open>workingHours\<close>, \<open>dd\<close> for
  \<^verbatim>\<open>deductions\<close>, \<open>c\<close> for \<^verbatim>\<open>calculations\<close>, \<open>td\<close> for \<^verbatim>\<open>taxDetails\<close>
  and \<open>aw\<close> for \<^verbatim>\<open>approvalWorkflow\<close>; \<open>p_id\<close> is the document's \<^verbatim>\<open>_id\<close>.
  The schema has no path \<^verbatim>\<open>month\<close>, \<^verbatim>\<open>year\<close>, \<^verbatim>\<open>payPeriod\<close>,
  \<^verbatim>\<open>grossPay\<close>, \<^verbatim>\<open>netPay\<close>, \<^verbatim>\<open>generatedBy\<close>, \<^verbatim>\<open>approvedBy\<close>,
  \<^verbatim>\<open>approvedDate\<close> or \<^verbatim>\<open>approverComments\<close>. Paths that have a default, that the
  controller never writes and the hook never reads (\<^verbatim>\<open>leaveDetails\<close>,
  \<^verbatim>\<open>paymentDetails\<close>, \<^verbatim>\<open>workingDays.absent\<close> and the like) are left out.
\<close>

record allowances_doc =
  sa_house :: rat
  sa_transport :: rat
  sa_medical :: rat
  sa_meal :: rat
  sa_communication :: rat
  sa_overtime :: rat
  sa_bonus :: rat
  sa_commission :: rat
  sa_other :: rat

record deductions_doc =
  dd_tax :: rat
  dd_socialSecurity :: rat
  dd_insurance :: rat
  dd_providentFund :: rat
  dd_loanRepayment :: rat
  dd_advance :: rat
  dd_lateFine :: rat
  dd_absentDeduction :: rat
  dd_other :: rat

record payroll_doc =
  p_id :: nat
  p_employee :: "string option"
  pp_year :: "int option"
  pp_month :: "int option"
  pp_startDate :: "int option"
  pp_endDate :: "int option"
  ss_basic :: "rat option"
  ss_allowances :: allowances_doc
  wd_expected :: "rat option"
  wd_actual :: "rat option"
  wh_expected :: "rat option"
  wh_actual :: "rat option"
  p_deductions :: deductions_doc
  c_grossSalary :: "rat option"
  c_totalAllowances :: "rat option"
  c_totalDeductions :: "rat option"
  c_netSalary :: "rat option"
  c_proRatedSalary :: "rat option"
  c_dailyRate :: "rat option"
  c_hourlyRate :: "rat option"
  td_taxableIncome :: rat
  td_taxExemptions :: rat
  p_status :: string
  aw_approvedBy :: "string option"
  aw_approvalDate :: "int option"
  p_createdBy :: "string option"
  p_updatedBy :: "string option"
  p_updatedAt :: "int option"

text \<open>
  An audit-log document, with the paths of the AuditLog schema that
  \<^verbatim>\<open>AuditLog.createLog\<close> is given by the payroll handlers and that have a validator.
  The free texts \<^verbatim>\<open>resource.name\<close> and \<^verbatim>\<open>response.message\<close> are left out.
\<close>

record audit_log =
  al_user :: string
  al_action :: string
  al_resourceType :: string
  al_resourceId :: "nat option"
  al_method :: string
  al_url :: string
  al_ipAddress :: string
  al_userAgent :: "string option"
  al_statusCode :: int

record db =
  Employees :: "employee list"
  Attendances :: "attendance list"
  Leaves :: "leave list"
  Payrolls :: "payroll_doc list"
  AuditLogs :: "audit_log list"

text \<open>
  Settings of the library. With \<open>strictQuery\<close> a key of a query filter that is not a path
  of the schema is removed from the filter; without it the key reaches the collection as it
  is. With \<open>strictPopulate\<close>, \<^verbatim>\<open>populate\<close> of a path that is not in the schema throws;
  without it the call does nothing.
\<close>

record lib_settings =
  strictQuery :: bool
  strictPopulate :: bool

definition Employee_findById :: "db \<Rightarrow> string \<Rightarrow> employee option" where
  "Employee_findById d i = find (\<lambda>e. emp_id e = i) (Employees d)"

definition Attendance_find :: "db \<Rightarrow> string \<Rightarrow> int \<Rightarrow> int \<Rightarrow> attendance list" where
  \<comment> \<open>\<^verbatim>\<open>{employee, date: {$gte: startDate, $lte: endDate}, checkInTime: {$ne: null}}\<close>\<close>
  "Attendance_find d employeeId startD endD =
     filter (\<lambda>r. att_employee r = employeeId \<and> startD \<le> att_date r \<and> att_date r \<le> endD
                 \<and> checkInTime r \<noteq> None) (Attendances d)"

definition Leave_find :: "db \<Rightarrow> string \<Rightarrow> int \<Rightarrow> int \<Rightarrow> leave list" where
  \<comment> \<open>\<^verbatim>\<open>{employee, status: 'approved', startDate: {$lte: endDate}, endDate: {$gte: startDate}}\<close>\<close>
  "Leave_find d employeeId startD endD =
     filter (\<lambda>l. lv_employee l = employeeId \<and> lv_status l = ''approved''
                 \<and> startDate l \<le> endD \<and> startD \<le> endDate l) (Leaves d)"

definition Payroll_findOne ::
  "lib_settings \<Rightarrow> db \<Rightarrow> string \<Rightarrow> int \<Rightarrow> int \<Rightarrow> payroll_doc option" where
  \<comment> \<open>\<^verbatim>\<open>Payroll.findOne({employee, month, year})\<close>. The keys \<^verbatim>\<open>month\<close> and
      \<^verbatim>\<open>year\<close> are not paths of the schema (the period is \<^verbatim>\<open>payrollPeriod.month\<close>
      and \<^verbatim>\<open>payrollPeriod.year\<close>): with \<open>strictQuery\<close> they are removed and the filter
      is \<^verbatim>\<open>{employee}\<close>; without it they reach the collection, where no stored document
      has a field \<^verbatim>\<open>month\<close> or \<^verbatim>\<open>year\<close>, and nothing matches.\<close>
  "Payroll_findOne lib d employeeId m y =
     (if strictQuery lib
      then find (\<lambda>p. p_employee p = Some employeeId) (Payrolls d)
      else None)"

definition Payroll_findById :: "db \<Rightarrow> nat \<Rightarrow> payroll_doc option" where
  "Payroll_findById d i = find (\<lambda>p. p_id p = i) (Payrolls d)"

subsection \<open>The calculator\<close>

definition leaveDaysOf :: "leave \<Rightarrow> int \<Rightarrow> int \<Rightarrow> int" where
  \<comment> \<open>The body of the \<^verbatim>\<open>forEach\<close>: what one leave record adds to \<^verbatim>\<open>leaveDays\<close>.\<close>
  "leaveDaysOf l startD endD =
     (let leaveStart = max (startDate l) startD;
          leaveEnd = min (endDate l) endD
      in \<lceil>(of_int (leaveEnd - leaveStart) :: rat) / of_int msPerDay\<rceil> + 1)"

definition leaveDaysLoop :: "leave list \<Rightarrow> int \<Rightarrow> int \<Rightarrow> int" where
  "leaveDaysLoop leaveRecords startD endD =
     fold (\<lambda>l acc. acc + leaveDaysOf l startD endD) leaveRecords 0"

definition overtimeHoursOf :: "attendance list \<Rightarrow> rat" where
  \<comment> \<open>\<^verbatim>\<open>reduce((total, record) => total + Math.max(0, (record.hoursWorked || 0) - 8), 0)\<close>\<close>
  "overtimeHoursOf attendanceRecords =
     fold (\<lambda>r total. total + max 0 (orZero (hoursWorked r) - 8)) attendanceRecords 0"

definition salaryBasic :: "employee \<Rightarrow> rat" where
  \<comment> \<open>\<^verbatim>\<open>employee.salary?.basic || 0\<close>\<close>
  "salaryBasic e = orZero (case salary e of None \<Rightarrow> None | Some s \<Rightarrow> basic s)"

definition salaryAllowance ::
  "(rat option allowances_rec \<Rightarrow> rat option) \<Rightarrow> employee \<Rightarrow> rat" where
  \<comment> \<open>\<^verbatim>\<open>employee.salary?.allowances?.k || 0\<close>\<close>
  "salaryAllowance k e =
     orZero (case salary e of None \<Rightarrow> None
             | Some s \<Rightarrow> (case salary_allowances s of None \<Rightarrow> None | Some a \<Rightarrow> k a))"

definition salaryDeduction ::
  "(salary_deductions \<Rightarrow> rat option) \<Rightarrow> employee \<Rightarrow> rat" where
  \<comment> \<open>\<^verbatim>\<open>employee.salary?.deductions?.k || 0\<close>\<close>
  "salaryDeduction k e =
     orZero (case salary e of None \<Rightarrow> None
             | Some s \<Rightarrow> (case salary_deductions s of None \<Rightarrow> None | Some a \<Rightarrow> k a))"

definition leaveBalanceAnnual :: "employee \<Rightarrow> rat" where
  \<comment> \<open>\<^verbatim>\<open>employee.leaveBalance?.annual || 0\<close>\<close>
  "leaveBalanceAnnual e =
     orZero (case leaveBalance e of None \<Rightarrow> None | Some b \<Rightarrow> annual b)"

datatype js_error = TypeError | InvalidDate

definition breakdown :: "employee \<Rightarrow> nat \<Rightarrow> nat \<Rightarrow> int \<Rightarrow> rat \<Rightarrow> payroll_data" where
  \<comment> \<open>The arithmetic of \<^verbatim>\<open>calculatePayroll\<close>, from "Basic salary calculation" to the
      returned object, on the results of the queries and loops before it. The working-day
      count it is called with is positive (lemma \<open>period_workingDays_pos\<close>), so neither
      division is by zero.\<close>
  "breakdown employee wDays aDays lDays otHours =
     (let basicSal = salaryBasic employee;
          dailyRate = basicSal / of_nat wDays;
          allow = \<lparr> hra = salaryAllowance hra employee,
                    transport = salaryAllowance transport employee,
                    medical = salaryAllowance medical employee,
                    food = salaryAllowance food employee,
                    otherAllowance = salaryAllowance otherAllowance employee \<rparr>;
          totalAllowances = 0 + hra allow + transport allow + medical allow + food allow
                              + otherAllowance allow;
          hourlyRate = basicSal / (of_nat wDays * 8);
          otAmount = otHours * hourlyRate * (15 / 10);
          gross = basicSal + totalAllowances + otAmount;
          unpaidLeaveDays = max 0 (of_int lDays - leaveBalanceAnnual employee);
          deds = \<lparr> tax = calculateTax gross,
                   pf = min (gross * (12 / 100)) 1800,
                   esi = (if gross \<le> 21000 then gross * (75 / 10000) else 0),
                   professional = salaryDeduction cfg_professional employee,
                   otherDeduction = salaryDeduction cfg_other employee,
                   unpaidLeave = unpaidLeaveDays * dailyRate \<rparr>;
          totalDeductions = 0 + tax deds + pf deds + esi deds + professional deds
                              + otherDeduction deds + unpaidLeave deds;
          net = gross - totalDeductions
      in \<lparr> basicSalary = basicSal, allowances = allow, deductions = deds,
           overtimeHours = otHours, overtimeAmount = otAmount,
           grossPay = gross, netPay = net, taxAmount = tax deds,
           attendanceDays = aDays, workingDays = wDays, leaveDays = lDays \<rparr>)"

definition calculatePayroll :: "db \<Rightarrow> string \<Rightarrow> int \<Rightarrow> int \<Rightarrow> js_error + payroll_data" where
  \<comment> \<open>A missing employee makes \<^verbatim>\<open>employee.salary\<close> throw a TypeError, which the
      \<^verbatim>\<open>catch\<close> rethrows. With an Invalid Date as a period boundary the date-range
      queries are rejected; the source has no branch of its own for it.\<close>
  "calculatePayroll d employeeId month year =
     (let employee = Employee_findById d employeeId
      in case (newDate year (month - 1) 1, newDate year month 0) of
           (Some startD, Some endD) \<Rightarrow>
             (let wDays = getWorkingDays startD endD;
                  attendanceRecords = Attendance_find d employeeId startD endD;
                  aDays = length attendanceRecords;
                  leaveRecords = Leave_find d employeeId startD endD;
                  lDays = leaveDaysLoop leaveRecords startD endD;
                  otHours = overtimeHoursOf attendanceRecords
              in case employee of
                   None \<Rightarrow> Inl TypeError
                 | Some e \<Rightarrow> Inr (breakdown e wDays aDays lDays otHours))
         | _ \<Rightarrow> Inl InvalidDate)"

definition inDateRange :: "int \<Rightarrow> int \<Rightarrow> bool" where
  \<comment> \<open>Months 1..12 of years whose dates lie inside the range of time values.\<close>
  "inDateRange month year =
     (1 \<le> month \<and> month \<le> 12 \<and> - 270000 \<le> year \<and> year \<le> 270000)"

subsection \<open>Saving under the schemas\<close>

text \<open>
  The validators of the Payroll schema: \<^verbatim>\<open>required\<close>, \<^verbatim>\<open>min\<close>, \<^verbatim>\<open>max\<close> and
  the \<^verbatim>\<open>enum\<close> of \<^verbatim>\<open>status\<close>.
\<close>

definition Payroll_statuses :: "string list" where
  "Payroll_statuses = [''draft'', ''calculated'', ''approved'', ''paid'', ''cancelled'']"

definition requiredMin0 :: "rat option \<Rightarrow> bool" where
  \<comment> \<open>\<^verbatim>\<open>required: true, min: 0\<close>\<close>
  "requiredMin0 v = (case v of None \<Rightarrow> False | Some x \<Rightarrow> 0 \<le> x)"

definition optionalMin0 :: "rat option \<Rightarrow> bool" where
  \<comment> \<open>\<^verbatim>\<open>min: 0\<close> on a path that is not required\<close>
  "optionalMin0 v = (case v of None \<Rightarrow> True | Some x \<Rightarrow> 0 \<le> x)"

definition deductions_valid :: "deductions_doc \<Rightarrow> bool" where
  "deductions_valid ds =
     (0 \<le> dd_tax ds \<and> 0 \<le> dd_socialSecurity ds \<and> 0 \<le> dd_insurance ds
      \<and> 0 \<le> dd_providentFund ds \<and> 0 \<le> dd_loanRepayment ds \<and> 0 \<le> dd_advance ds
      \<and> 0 \<le> dd_lateFine ds \<and> 0 \<le> dd_absentDeduction ds \<and> 0 \<le> dd_other ds)"

definition Payroll_validate :: "payroll_doc \<Rightarrow> bool" where
  "Payroll_validate p =
     (p_employee p \<noteq> None
      \<and> pp_year p \<noteq> None
      \<and> (case pp_month p of None \<Rightarrow> False | Some m \<Rightarrow> 1 \<le> m \<and> m \<le> 12)
      \<and> pp_startDate p \<noteq> None
      \<and> pp_endDate p \<noteq> None
      \<and> requiredMin0 (ss_basic p)
      \<and> requiredMin0 (wd_expected p) \<and> requiredMin0 (wd_actual p)
      \<and> requiredMin0 (wh_expected p) \<and> requiredMin0 (wh_actual p)
      \<and> deductions_valid (p_deductions p)
      \<and> requiredMin0 (c_grossSalary p) \<and> requiredMin0 (c_totalAllowances p)
      \<and> requiredMin0 (c_totalDeductions p) \<and> requiredMin0 (c_netSalary p)
      \<and> optionalMin0 (c_proRatedSalary p) \<and> optionalMin0 (c_dailyRate p)
      \<and> optionalMin0 (c_hourlyRate p)
      \<and> 0 \<le> td_taxableIncome p \<and> 0 \<le> td_taxExemptions p
      \<and> p_status p \<in> set Payroll_statuses
      \<and> p_createdBy p \<noteq> None)"

definition allowances_total :: "allowances_doc \<Rightarrow> rat" where
  \<comment> \<open>\<^verbatim>\<open>Object.values(allowances).reduce((sum, val) => sum + val, 0)\<close>\<close>
  "allowances_total a =
     0 + sa_house a + sa_transport a + sa_medical a + sa_meal a + sa_communication a
       + sa_overtime a + sa_bonus a + sa_commission a + sa_other a"

definition deductions_total :: "deductions_doc \<Rightarrow> rat" where
  \<comment> \<open>\<^verbatim>\<open>Object.values(deductions).reduce((sum, val) => sum + val, 0)\<close>\<close>
  "deductions_total ds =
     0 + dd_tax ds + dd_socialSecurity ds + dd_insurance ds + dd_providentFund ds
       + dd_loanRepayment ds + dd_advance ds + dd_lateFine ds + dd_absentDeduction ds
       + dd_other ds"

definition preSave :: "payroll_doc \<Rightarrow> payroll_doc" where
  \<comment> \<open>\<^verbatim>\<open>payrollSchema.pre('save', ...)\<close>. It runs after the validators, so that the
      required numbers it reads are there. When \<^verbatim>\<open>workingDays.expected\<close> is 0 the two
      rates are not finite numbers in the source; they are \<open>None\<close> here.\<close>
  "preSave p =
     (let basic = the (ss_basic p);
          expected = the (wd_expected p);
          actual = the (wd_actual p);
          totalAllowances = allowances_total (ss_allowances p);
          grossSalary = basic + totalAllowances;
          totalDeductions = deductions_total (p_deductions p);
          netSalary = max 0 (grossSalary - totalDeductions);
          dailyRate = (if expected = 0 then None else Some (basic / expected));
          hourlyRate = map_option (\<lambda>r. r / 8) dailyRate;
          proRatedSalary =
            (if actual < expected then map_option (\<lambda>r. r * actual) dailyRate else Some basic)
      in p\<lparr> c_totalAllowances := Some totalAllowances,
             c_grossSalary := Some grossSalary,
             c_totalDeductions := Some totalDeductions,
             c_netSalary := Some netSalary,
             c_dailyRate := dailyRate,
             c_hourlyRate := hourlyRate,
             c_proRatedSalary := proRatedSalary,
             td_taxableIncome := grossSalary - td_taxExemptions p \<rparr>)"

datatype save_error = ValidationError | DuplicateKey

definition duplicateKey :: "db \<Rightarrow> payroll_doc \<Rightarrow> bool" where
  \<comment> \<open>The unique index on \<^verbatim>\<open>employee\<close>, \<^verbatim>\<open>payrollPeriod.year\<close> and
      \<^verbatim>\<open>payrollPeriod.month\<close>\<close>
  "duplicateKey d p =
     list_ex (\<lambda>q. p_employee q = p_employee p \<and> pp_year q = pp_year p
                  \<and> pp_month q = pp_month p) (Payrolls d)"

definition Payroll_insert :: "db \<Rightarrow> payroll_doc \<Rightarrow> save_error + db" where
  \<comment> \<open>\<^verbatim>\<open>save()\<close> of a new document: the validators, the hook, the insertion\<close>
  "Payroll_insert d p =
     (if Payroll_validate p
      then (if duplicateKey d p then Inl DuplicateKey
            else Inr (d\<lparr> Payrolls := Payrolls d @ [preSave p] \<rparr>))
      else Inl ValidationError)"

definition Payroll_update :: "db \<Rightarrow> payroll_doc \<Rightarrow> save_error + db" where
  \<comment> \<open>\<^verbatim>\<open>save()\<close> of a document that was read from the collection; the handlers do not
      change the paths of the unique index\<close>
  "Payroll_update d p =
     (if Payroll_validate p
      then Inr (d\<lparr> Payrolls :=
                   map (\<lambda>q. if p_id q = p_id p then preSave p else q) (Payrolls d) \<rparr>)
      else Inl ValidationError)"

text \<open>The validators of the AuditLog schema and \<^verbatim>\<open>AuditLog.createLog\<close>.\<close>

definition AuditLog_actions :: "string list" where
  "AuditLog_actions =
     [''login'', ''logout'', ''login_failed'', ''password_change'', ''profile_update'',
      ''employee_create'', ''employee_update'', ''employee_delete'', ''employee_view'',
      ''department_create'', ''department_update'', ''department_delete'',
      ''attendance_checkin'', ''attendance_checkout'', ''attendance_update'',
      ''attendance_approve'',
      ''leave_apply'', ''leave_approve'', ''leave_reject'', ''leave_cancel'', ''leave_update'',
      ''payroll_calculate'', ''payroll_approve'', ''payroll_generate'', ''payroll_pay'',
      ''settings_update'', ''backup_create'', ''backup_restore'', ''system_maintenance'',
      ''report_generate'', ''report_export'', ''file_upload'', ''file_delete'']"

definition AuditLog_resourceTypes :: "string list" where
  "AuditLog_resourceTypes =
     [''user'', ''employee'', ''department'', ''attendance'', ''leave'', ''payroll'',
      ''system'', ''report'', ''file'']"

definition AuditLog_methods :: "string list" where
  "AuditLog_methods = [''GET'', ''POST'', ''PUT'', ''DELETE'', ''PATCH'']"

definition isWhite :: "char \<Rightarrow> bool" where
  "isWhite c = (c \<in> set [CHR 0x20, CHR 0x09, CHR 0x0A, CHR 0x0B, CHR 0x0C, CHR 0x0D])"

definition trimStr :: "string \<Rightarrow> string" where
  \<comment> \<open>the setter \<^verbatim>\<open>trim: true\<close>\<close>
  "trimStr s = rev (dropWhile isWhite (rev (dropWhile isWhite s)))"

definition AuditLog_validate :: "audit_log \<Rightarrow> bool" where
  \<comment> \<open>\<^verbatim>\<open>resource.id\<close> is required unless \<^verbatim>\<open>resource.type\<close> is \<^verbatim>\<open>'system'\<close>; a
      required string must not be empty\<close>
  "AuditLog_validate a =
     (al_user a \<noteq> []
      \<and> al_action a \<in> set AuditLog_actions
      \<and> al_resourceType a \<in> set AuditLog_resourceTypes
      \<and> (al_resourceType a = ''system'' \<or> al_resourceId a \<noteq> None)
      \<and> al_method a \<in> set AuditLog_methods
      \<and> trimStr (al_url a) \<noteq> []
      \<and> trimStr (al_ipAddress a) \<noteq> [])"

definition AuditLog_createLog :: "db \<Rightarrow> audit_log \<Rightarrow> save_error + db" where
  \<comment> \<open>\<^verbatim>\<open>new this(logData)\<close>, \<^verbatim>\<open>calculateRiskScore()\<close> (which sets the \<^verbatim>\<open>risk\<close>
      paths and does not throw), \<^verbatim>\<open>save()\<close>\<close>
  "AuditLog_createLog d a =
     (if AuditLog_validate a then Inr (d\<lparr> AuditLogs := AuditLogs d @ [a] \<rparr>)
      else Inl ValidationError)"

subsection \<open>Record lifecycle\<close>

text \<open>
  A request: the fields of \<^verbatim>\<open>req.body\<close> that the handlers read, \<^verbatim>\<open>req.user._id\<close>,
  \<^verbatim>\<open>req.originalUrl\<close>, \<^verbatim>\<open>req.ip\<close> and the \<^verbatim>\<open>User-Agent\<close> header.
\<close>

record request =
  body_employeeId :: "string option"
  body_month :: "int option"
  body_year :: "int option"
  body_departmentId :: "string option"
  body_approverComments :: "string option"
  req_user :: string
  req_originalUrl :: string
  req_ip :: string
  req_userAgent :: "string option"

definition falsyStr :: "string option \<Rightarrow> bool" where
  \<comment> \<open>\<^verbatim>\<open>!s\<close> for a string or a missing value\<close>
  "falsyStr s = (case s of None \<Rightarrow> True | Some v \<Rightarrow> v = [])"

definition falsyNum :: "int option \<Rightarrow> bool" where
  \<comment> \<open>\<^verbatim>\<open>!n\<close> for a number or a missing value\<close>
  "falsyNum n = (case n of None \<Rightarrow> True | Some v \<Rightarrow> v = 0)"

record successful_entry =
  s_employee :: employee
  s_payroll :: payroll_doc

record failed_entry =
  f_employee :: employee
  f_error :: string

record bulk_results =
  successful :: "successful_entry list"
  failed :: "failed_entry list"

datatype response =
    BadRequest string
  | NotFound string
  | ServerError string
  | Created payroll_doc
  | Success payroll_doc
  | BulkSuccess bulk_results

definition errorMessage :: "js_error \<Rightarrow> string" where
  \<comment> \<open>\<^verbatim>\<open>error.message\<close>; the texts are the engine's and the library's, given here in
      short.\<close>
  "errorMessage e =
     (case e of TypeError \<Rightarrow> ''Cannot read properties of null''
              | InvalidDate \<Rightarrow> ''Cast to date failed'')"

definition saveErrorMessage :: "save_error \<Rightarrow> string" where
  \<comment> \<open>\<^verbatim>\<open>error.message\<close> of an error thrown by \<^verbatim>\<open>save()\<close>, in short\<close>
  "saveErrorMessage e =
     (case e of ValidationError \<Rightarrow> ''Payroll validation failed''
              | DuplicateKey \<Rightarrow> ''E11000 duplicate key error'')"

definition zeroAllowances :: allowances_doc where
  "zeroAllowances =
     \<lparr> sa_house = 0, sa_transport = 0, sa_medical = 0, sa_meal = 0, sa_communication = 0,
       sa_overtime = 0, sa_bonus = 0, sa_commission = 0, sa_other = 0 \<rparr>"

definition newPayroll ::
  "db \<Rightarrow> string \<Rightarrow> int \<Rightarrow> int \<Rightarrow> payroll_data \<Rightarrow> string \<Rightarrow> int \<Rightarrow> payroll_doc" where
  \<comment> \<open>\<^verbatim>\<open>new Payroll({...})\<close>, the same object literal in \<^verbatim>\<open>generatePayroll\<close> and in
      \<^verbatim>\<open>generateBulkPayroll\<close>. Of its keys, \<^verbatim>\<open>employee\<close>, \<^verbatim>\<open>deductions\<close> (with
      the keys \<^verbatim>\<open>tax\<close> and \<^verbatim>\<open>other\<close>), \<^verbatim>\<open>workingDays\<close> and \<^verbatim>\<open>status\<close> are
      paths of the schema. \<^verbatim>\<open>workingDays\<close> is given a number where the schema has an
      object, which sets neither \<^verbatim>\<open>workingDays.expected\<close> nor
      \<^verbatim>\<open>workingDays.actual\<close>. The other keys (\<^verbatim>\<open>month\<close>, \<^verbatim>\<open>year\<close>,
      \<^verbatim>\<open>payPeriod\<close>, \<^verbatim>\<open>basicSalary\<close>, \<^verbatim>\<open>allowances\<close>, \<^verbatim>\<open>overtimeHours\<close>,
      \<^verbatim>\<open>overtimeAmount\<close>, \<^verbatim>\<open>grossPay\<close>, \<^verbatim>\<open>netPay\<close>, \<^verbatim>\<open>taxAmount\<close>,
      \<^verbatim>\<open>attendanceDays\<close>, \<^verbatim>\<open>leaveDays\<close>, \<^verbatim>\<open>generatedBy\<close>,
      \<^verbatim>\<open>generatedDate\<close>) are not, and the document does not keep them. The fresh
      \<^verbatim>\<open>_id\<close> is the size of the collection.\<close>
  "newPayroll d employeeId m y payrollData userId now =
     \<lparr> p_id = length (Payrolls d),
       p_employee = Some employeeId,
       pp_year = None, pp_month = None, pp_startDate = None, pp_endDate = None,
       ss_basic = None,
       ss_allowances = zeroAllowances,
       wd_expected = None, wd_actual = None,
       wh_expected = None, wh_actual = None,
       p_deductions =
         \<lparr> dd_tax = tax (deductions payrollData), dd_socialSecurity = 0, dd_insurance = 0,
           dd_providentFund = 0, dd_loanRepayment = 0, dd_advance = 0, dd_lateFine = 0,
           dd_absentDeduction = 0, dd_other = otherDeduction (deductions payrollData) \<rparr>,
       c_grossSalary = None, c_totalAllowances = None, c_totalDeductions = None,
       c_netSalary = None, c_proRatedSalary = None, c_dailyRate = None, c_hourlyRate = None,
       td_taxableIncome = 0, td_taxExemptions = 0,
       p_status = ''pending'',
       aw_approvedBy = None, aw_approvalDate = None,
       p_createdBy = None, p_updatedBy = None, p_updatedAt = None \<rparr>"

definition auditEntry :: "request \<Rightarrow> string \<Rightarrow> nat option \<Rightarrow> string \<Rightarrow> int \<Rightarrow> audit_log" where
  \<comment> \<open>The object the payroll handlers pass to \<^verbatim>\<open>AuditLog.createLog\<close>; the resource
      type is \<^verbatim>\<open>'payroll'\<close> in all of them.\<close>
  "auditEntry req action resourceId method statusCode =
     \<lparr> al_user = req_user req, al_action = action, al_resourceType = ''payroll'',
       al_resourceId = resourceId, al_method = method, al_url = req_originalUrl req,
       al_ipAddress = req_ip req, al_userAgent = req_userAgent req,
       al_statusCode = statusCode \<rparr>"

definition generatePayroll :: "lib_settings \<Rightarrow> db \<Rightarrow> request \<Rightarrow> int \<Rightarrow> response \<times> db" where
  \<comment> \<open>Every error thrown inside the \<^verbatim>\<open>try\<close> is answered with 500. The two
      \<^verbatim>\<open>populate\<close> calls after the save are of paths of the schema and change only
      what the answer shows of the employee.\<close>
  "generatePayroll lib d req now =
     (if falsyStr (body_employeeId req) \<or> falsyNum (body_month req) \<or> falsyNum (body_year req)
      then (BadRequest ''Employee ID, month, and year are required'', d)
      else
        (let eid = the (body_employeeId req); m = the (body_month req); y = the (body_year req)
         in case Employee_findById d eid of
              None \<Rightarrow> (NotFound ''Employee not found'', d)
            | Some employee \<Rightarrow>
                (case Payroll_findOne lib d eid m y of
                   Some existingPayroll \<Rightarrow>
                     (BadRequest ''Payroll for this month already exists'', d)
                 | None \<Rightarrow>
                     (case calculatePayroll d eid m y of
                        Inl err \<Rightarrow> (ServerError ''Failed to generate payroll'', d)
                      | Inr payrollData \<Rightarrow>
                          (let payroll = newPayroll d eid m y payrollData (req_user req) now
                           in case Payroll_insert d payroll of
                                Inl err \<Rightarrow> (ServerError ''Failed to generate payroll'', d)
                              | Inr d' \<Rightarrow>
                                  (case AuditLog_createLog d'
                                          (auditEntry req ''payroll_generate''
                                             (Some (p_id payroll)) ''POST'' 201) of
                                     Inl err \<Rightarrow>
                                       (ServerError ''Failed to generate payroll'', d')
                                   | Inr d'' \<Rightarrow> (Created (preSave payroll), d'')))))))"

text \<open>
  \<^verbatim>\<open>approvePayroll\<close> and \<^verbatim>\<open>rejectPayroll\<close>. The assignments to
  \<^verbatim>\<open>payroll.approvedBy\<close>, \<^verbatim>\<open>payroll.approvedDate\<close> and
  \<^verbatim>\<open>payroll.approverComments\<close> set properties that are not paths of the schema (its
  paths are \<^verbatim>\<open>approvalWorkflow.approvedBy\<close> and \<^verbatim>\<open>approvalWorkflow.approvalDate\<close>):
  the document does not keep them and \<^verbatim>\<open>save()\<close> does not write them. After the save
  comes \<^verbatim>\<open>payroll.populate('approvedBy', ...)\<close>, again of a path that is not in the
  schema, and then the audit log, whose resource name reads \<^verbatim>\<open>payroll.employee.firstName\<close>
  of the employee that \<^verbatim>\<open>findById(id).populate('employee', ...)\<close> found, if any.
\<close>

definition approvePayroll ::
  "lib_settings \<Rightarrow> db \<Rightarrow> nat \<Rightarrow> request \<Rightarrow> int \<Rightarrow> response \<times> db" where
  "approvePayroll lib d i req now =
     (case Payroll_findById d i of
        None \<Rightarrow> (NotFound ''Payroll record not found'', d)
      | Some payroll \<Rightarrow>
          if p_status payroll = ''approved''
          then (BadRequest ''Payroll is already approved'', d)
          else
            (let payroll' = payroll\<lparr> p_status := ''approved'',
                                     p_updatedBy := Some (req_user req),
                                     p_updatedAt := Some now \<rparr>
             in case Payroll_update d payroll' of
                  Inl err \<Rightarrow> (ServerError ''Failed to approve payroll'', d)
                | Inr d' \<Rightarrow>
                    if strictPopulate lib
                    then (ServerError ''Failed to approve payroll'', d')
                    else
                      (case Option.bind (p_employee payroll) (Employee_findById d) of
                         None \<Rightarrow> (ServerError ''Failed to approve payroll'', d')
                       | Some employee \<Rightarrow>
                           (case AuditLog_createLog d'
                                   (auditEntry req ''payroll_approve''
                                      (Some (p_id payroll)) ''PUT'' 200) of
                              Inl err \<Rightarrow> (ServerError ''Failed to approve payroll'', d')
                            | Inr d'' \<Rightarrow> (Success (preSave payroll'), d'')))))"

definition rejectPayroll ::
  "lib_settings \<Rightarrow> db \<Rightarrow> nat \<Rightarrow> request \<Rightarrow> int \<Rightarrow> response \<times> db" where
  "rejectPayroll lib d i req now =
     (case Payroll_findById d i of
        None \<Rightarrow> (NotFound ''Payroll record not found'', d)
      | Some payroll \<Rightarrow>
          if p_status payroll \<noteq> ''pending''
          then (BadRequest ''Payroll has already been processed'', d)
          else
            (let payroll' = payroll\<lparr> p_status := ''rejected'',
                                     p_updatedBy := Some (req_user req),
                                     p_updatedAt := Some now \<rparr>
             in case Payroll_update d payroll' of
                  Inl err \<Rightarrow> (ServerError ''Failed to reject payroll'', d)
                | Inr d' \<Rightarrow>
                    if strictPopulate lib
                    then (ServerError ''Failed to reject payroll'', d')
                    else
                      (case Option.bind (p_employee payroll) (Employee_findById d) of
                         None \<Rightarrow> (ServerError ''Failed to reject payroll'', d')
                       | Some employee \<Rightarrow>
                           (case AuditLog_createLog d'
                                   (auditEntry req ''payroll_reject''
                                      (Some (p_id payroll)) ''PUT'' 200) of
                              Inl err \<Rightarrow> (ServerError ''Failed to reject payroll'', d')
                            | Inr d'' \<Rightarrow> (Success (preSave payroll'), d'')))))"

definition bulkStep ::
  "lib_settings \<Rightarrow> int \<Rightarrow> int \<Rightarrow> string \<Rightarrow> int \<Rightarrow> employee \<Rightarrow> db \<times> bulk_results
     \<Rightarrow> db \<times> bulk_results" where
  \<comment> \<open>One turn of the \<^verbatim>\<open>for\<close> loop of \<^verbatim>\<open>generateBulkPayroll\<close>, with its
      \<^verbatim>\<open>try\<close>/\<^verbatim>\<open>catch\<close>.\<close>
  "bulkStep lib m y userId now employee st =
     (let d = fst st; results = snd st
      in case Payroll_findOne lib d (emp_id employee) m y of
           Some existingPayroll \<Rightarrow>
             (d, results\<lparr> failed := failed results @
                   [\<lparr> f_employee = employee,
                      f_error = ''Payroll already exists for this month'' \<rparr>] \<rparr>)
         | None \<Rightarrow>
             (case calculatePayroll d (emp_id employee) m y of
                Inl err \<Rightarrow>
                  (d, results\<lparr> failed := failed results @
                        [\<lparr> f_employee = employee, f_error = errorMessage err \<rparr>] \<rparr>)
              | Inr payrollData \<Rightarrow>
                  (let payroll = newPayroll d (emp_id employee) m y payrollData userId now
                   in case Payroll_insert d payroll of
                        Inl err \<Rightarrow>
                          (d, results\<lparr> failed := failed results @
                                [\<lparr> f_employee = employee,
                                   f_error = saveErrorMessage err \<rparr>] \<rparr>)
                      | Inr d' \<Rightarrow>
                          (d', results\<lparr> successful := successful results @
                                 [\<lparr> s_employee = employee,
                                    s_payroll = preSave payroll \<rparr>] \<rparr>))))"

fun bulkLoop ::
  "lib_settings \<Rightarrow> int \<Rightarrow> int \<Rightarrow> string \<Rightarrow> int \<Rightarrow> employee list \<Rightarrow> db \<times> bulk_results
     \<Rightarrow> db \<times> bulk_results" where
  "bulkLoop lib m y userId now [] st = st"
| "bulkLoop lib m y userId now (employee # rest) st =
     bulkLoop lib m y userId now rest (bulkStep lib m y userId now employee st)"

definition Employee_findActive :: "lib_settings \<Rightarrow> db \<Rightarrow> string option \<Rightarrow> employee list" where
  \<comment> \<open>\<^verbatim>\<open>Employee.find({status: 'active'})\<close>, with \<^verbatim>\<open>department: departmentId\<close> added
      when a department is given. The Employee schema has no path \<^verbatim>\<open>status\<close> (its paths
      are \<^verbatim>\<open>employmentStatus\<close> and \<^verbatim>\<open>isActive\<close>): with \<open>strictQuery\<close> the key is
      removed from the filter; without it the filter reaches the collection and selects on
      the stored field, for which \<open>emp_status\<close> stands.\<close>
  "Employee_findActive lib d dep =
     filter (\<lambda>e. (strictQuery lib \<or> emp_status e = ''active'')
                 \<and> (falsyStr dep \<or> emp_department e = dep)) (Employees d)"

definition generateBulkPayroll ::
  "lib_settings \<Rightarrow> db \<Rightarrow> request \<Rightarrow> int \<Rightarrow> response \<times> db" where
  \<comment> \<open>The audit entry after the loop has the action \<^verbatim>\<open>'payroll_bulk_generate'\<close> and
      \<^verbatim>\<open>id: null\<close> for its resource.\<close>
  "generateBulkPayroll lib d req now =
     (if falsyNum (body_month req) \<or> falsyNum (body_year req)
      then (BadRequest ''Month and year are required'', d)
      else
        (let m = the (body_month req); y = the (body_year req);
             employees = Employee_findActive lib d (body_departmentId req);
             st = bulkLoop lib m y (req_user req) now employees
                    (d, \<lparr> successful = [], failed = [] \<rparr>)
         in case AuditLog_createLog (fst st)
                   (auditEntry req ''payroll_bulk_generate'' None ''POST'' 200) of
              Inl err \<Rightarrow> (ServerError ''Failed to generate bulk payroll'', fst st)
            | Inr d' \<Rightarrow> (BulkSuccess (snd st), d')))"

subsection \<open>The specification's leave count\<close>

definition numberOfDaysBetween :: "int \<Rightarrow> int \<Rightarrow> int" where
  \<comment> \<open>How \<^verbatim>\<open>applyLeave\<close> computes a leave's \<^verbatim>\<open>numberOfDays\<close>:
      \<^verbatim>\<open>Math.ceil((end - start) / (1000 * 60 * 60 * 24)) + 1\<close>\<close>
  "numberOfDaysBetween start end =
     \<lceil>(of_int (end - start) :: rat) / of_int (1000 * 60 * 60 * 24)\<rceil> + 1"

definition spec_leaveDays :: "leave list \<Rightarrow> string \<Rightarrow> int \<Rightarrow> int \<Rightarrow> int" where
  \<comment> \<open>The specification's wording: the sum, over the employee's approved leave records whose
      interval overlaps the period, of the number of days of the interval clipped to the
      period.\<close>
  "spec_leaveDays ls employeeId periodStart periodEnd =
     sum_list
       (map (\<lambda>l. numberOfDaysBetween (max (startDate l) periodStart) (min (endDate l) periodEnd))
          (filter (\<lambda>l. lv_employee l = employeeId \<and> lv_status l = ''approved''
                       \<and> startDate l \<le> periodEnd \<and> periodStart \<le> endDate l) ls))"

subsection \<open>Example data\<close>

text \<open>
  A small collection for the concrete instances below: one employee \<open>E1\<close>, attendance
  records on the days of April 2024 (1711929600000 is 2024-04-01T00:00Z).
\<close>

definition ex_employee :: "rat option \<Rightarrow> rat option \<Rightarrow> employee" where
  "ex_employee b prof =
     \<lparr> emp_id = ''E1'', firstName = ''Asha'', lastName = ''Rao'',
       emp_department = Some ''D1'', emp_status = ''active'',
       salary = Some \<lparr> basic = b, salary_allowances = None,
                       salary_deductions =
                         Some \<lparr> cfg_professional = prof, cfg_other = None \<rparr> \<rparr>,
       leaveBalance = Some \<lparr> annual = Some 20 \<rparr> \<rparr>"

definition ex_attendance :: "int \<Rightarrow> rat \<Rightarrow> attendance" where
  "ex_attendance i h =
     \<lparr> att_employee = ''E1'', att_date = 1711929600000 + i * msPerDay,
       checkInTime = Some (1711929600000 + i * msPerDay + 32400000),
       hoursWorked = Some h \<rparr>"

definition ex_db :: "employee \<Rightarrow> attendance list \<Rightarrow> leave list \<Rightarrow> db" where
  "ex_db e as ls =
     \<lparr> Employees = [e], Attendances = as, Leaves = ls, Payrolls = [], AuditLogs = [] \<rparr>"

definition ex_db1 :: db where
  "ex_db1 = ex_db (ex_employee (Some 22000) None) (map (\<lambda>i. ex_attendance i 8) [0..<20]) []"

definition ex_emp1 :: employee where
  "ex_emp1 = ex_employee (Some 22000) None"

definition ex_db0 :: db where
  "ex_db0 = ex_db ex_emp1 [] []"

text \<open>
  A request to generate the payroll of \<open>E1\<close> for April 2024, and a request to generate the
  payrolls of all employees for that month.
\<close>

definition ex_req :: request where
  "ex_req = \<lparr> body_employeeId = Some ''E1'', body_month = Some 4, body_year = Some 2024,
              body_departmentId = None, body_approverComments = None,
              req_user = ''U1'', req_originalUrl = ''/api/payroll/generate'',
              req_ip = ''10.0.0.7'', req_userAgent = None \<rparr>"

definition ex_req_bulk :: request where
  "ex_req_bulk = \<lparr> body_employeeId = None, body_month = Some 4, body_year = Some 2024,
                   body_departmentId = None, body_approverComments = None,
                   req_user = ''U1'', req_originalUrl = ''/api/payroll/generate-bulk'',
                   req_ip = ''10.0.0.7'', req_userAgent = None \<rparr>"

definition ex_emp2 :: employee where
  "ex_emp2 = ex_emp1\<lparr> emp_id := ''E2'' \<rparr>"

definition ex_db_bulk :: db where
  "ex_db_bulk = \<lparr> Employees = [ex_emp1, ex_emp2], Attendances = [], Leaves = [],
                  Payrolls = [], AuditLogs = [] \<rparr>"

text \<open>
  A payroll document as the seed script (\<^verbatim>\<open>seedPayrollRecords\<close>) inserts them: the
  payroll of \<open>E1\<close> for March 2024, created by the administrator \<open>U0\<close>, with 22 expected
  working days, already approved and paid. It passes the validators of the schema. The
  request is the one of user \<open>U3\<close> to approve, or to reject, that document.
\<close>

definition ex_payroll_paid :: payroll_doc where
  "ex_payroll_paid =
     \<lparr> p_id = 0,
       p_employee = Some ''E1'',
       pp_year = Some 2024, pp_month = Some 3,
       pp_startDate = Some 1709251200000, pp_endDate = Some 1711843200000,
       ss_basic = Some 22000,
       ss_allowances = zeroAllowances,
       wd_expected = Some 22, wd_actual = Some 22,
       wh_expected = Some 176, wh_actual = Some 176,
       p_deductions =
         \<lparr> dd_tax = 0, dd_socialSecurity = 0, dd_insurance = 0, dd_providentFund = 0,
           dd_loanRepayment = 0, dd_advance = 0, dd_lateFine = 0, dd_absentDeduction = 0,
           dd_other = 0 \<rparr>,
       c_grossSalary = Some 22000, c_totalAllowances = Some 0, c_totalDeductions = Some 0,
       c_netSalary = Some 22000, c_proRatedSalary = None, c_dailyRate = Some 1000,
       c_hourlyRate = Some 125,
       td_taxableIncome = 22000, td_taxExemptions = 0,
       p_status = ''paid'',
       aw_approvedBy = Some ''U0'', aw_approvalDate = Some 1711965600000,
       p_createdBy = Some ''U0'', p_updatedBy = None, p_updatedAt = Some 1711965600000 \<rparr>"

definition ex_db_paid :: db where
  "ex_db_paid = ex_db0\<lparr> Payrolls := [ex_payroll_paid] \<rparr>"

definition ex_req_approve :: request where
  "ex_req_approve = \<lparr> body_employeeId = None, body_month = None, body_year = None,
                      body_departmentId = None, body_approverComments = Some ''checked'',
                      req_user = ''U3'', req_originalUrl = ''/api/payroll/0/approve'',
                      req_ip = ''10.0.0.7'', req_userAgent = None \<rparr>"

text \<open>
  An approved leave of \<open>E1\<close> on the last day of April 2024, from 09:00 to 18:00
  (1714435200000 is 2024-04-30T00:00Z), with the \<open>numberOfDays\<close> that \<^verbatim>\<open>applyLeave\<close>
  computes for it.
\<close>

definition ex_leave_lastDay :: leave where
  "ex_leave_lastDay =
     \<lparr> lv_employee = ''E1'', lv_status = ''approved'',
       startDate = 1714435200000 + 9 * 3600000, endDate = 1714435200000 + 18 * 3600000,
       numberOfDays = numberOfDaysBetween (1714435200000 + 9 * 3600000)
                        (1714435200000 + 18 * 3600000) \<rparr>"

definition ex_db_lastDay :: db where
  "ex_db_lastDay = ex_db ex_emp1 [] [ex_leave_lastDay]"

section \<open>Theorems\<close>

subsection \<open>The calendar\<close>

lemma succ_mod12:
  fixes k :: int
  assumes "k mod 12 < 11"
  shows "(k + 1) mod 12 = k mod 12 + 1" "(k + 1) div 12 = k div 12"
proof -
  have e: "k + 1 = 12 * (k div 12) + (k mod 12 + 1)" by simp
  have r: "0 \<le> k mod 12 + 1" "k mod 12 + 1 < 12" using assms by simp_all
  show "(k + 1) mod 12 = k mod 12 + 1" by (rule int_mod_pos_eq[OF e r])
  show "(k + 1) div 12 = k div 12" by (rule int_div_pos_eq[OF e r])
qed

lemma succ_mod12_wrap:
  fixes k :: int
  assumes "k mod 12 = 11"
  shows "(k + 1) mod 12 = 0" "(k + 1) div 12 = k div 12 + 1"
proof -
  have "k = 12 * (k div 12) + 11" using assms mult_div_mod_eq[of 12 k] by simp
  then have e: "k + 1 = 12 * (k div 12 + 1) + 0" by simp
  show "(k + 1) mod 12 = 0" by (rule int_mod_pos_eq[OF e]) simp_all
  show "(k + 1) div 12 = k div 12 + 1" by (rule int_div_pos_eq[OF e]) simp_all
qed

lemma DayFromYear_step: "364 \<le> DayFromYear (y + 1) - DayFromYear y"
proof -
  have a: "(y - 1969) div 4 \<le> (y + 1 - 1969) div 4" by (intro zdiv_mono1) auto
  have b: "(y + 1 - 1901) div 100 \<le> (y - 1901) div 100 + 1"
    using zdiv_mono1[of "y + 1 - 1901" "y - 1901 + 100" 100] by simp
  have c: "(y - 1601) div 400 \<le> (y + 1 - 1601) div 400" by (intro zdiv_mono1) auto
  have gen: "a \<le> a' \<Longrightarrow> b' \<le> b + 1 \<Longrightarrow> c \<le> c' \<Longrightarrow>
     364 \<le> 365 * (y + 1 - 1970) + a' - b' + c' - (365 * (y - 1970) + a - b + c)"
    for a a' b b' c c' :: int
    by simp
  show ?thesis unfolding DayFromYear_def by (rule gen[OF a b c])
qed

lemma monthStart_step:
  assumes "0 \<le> mn" "mn < 11"
  shows "28 \<le> monthStart (mn + 1) l - monthStart mn l"
proof -
  from assms have "mn = 0 \<or> mn = 1 \<or> mn = 2 \<or> mn = 3 \<or> mn = 4 \<or> mn = 5 \<or> mn = 6 \<or> mn = 7
     \<or> mn = 8 \<or> mn = 9 \<or> mn = 10" by arith
  then show ?thesis by (auto simp: monthStart_def)
qed

lemma monthStart_ends: "monthStart 11 l \<le> 335" "monthStart 0 l = 0"
  by (auto simp: monthStart_def)

lemma month_length: "27 \<le> MakeDay yr month 0 - MakeDay yr (month - 1) 1"
proof (cases "(month - 1) mod 12 = 11")
  case True
  from succ_mod12_wrap[OF True]
  have m: "month mod 12 = 0" and d: "month div 12 = (month - 1) div 12 + 1" by simp_all
  show ?thesis
    using DayFromYear_step[of "yr + (month - 1) div 12"]
      monthStart_ends(1)[of "InLeapYear (yr + (month - 1) div 12)"]
    by (simp add: MakeDay_def Let_def True m d monthStart_ends(2) add.assoc)
next
  case False
  then have r: "0 \<le> (month - 1) mod 12" "(month - 1) mod 12 < 11"
    using pos_mod_bound[of 12 "month - 1"] by auto
  from succ_mod12[OF r(2)]
  have m: "month mod 12 = (month - 1) mod 12 + 1" and d: "month div 12 = (month - 1) div 12"
    by simp_all
  show ?thesis
    using monthStart_step[OF r, of "InLeapYear (yr + (month - 1) div 12)"]
    by (simp add: MakeDay_def Let_def m d)
qed

lemma getWorkingDays_loop_mono: "w \<le> getWorkingDays_loop c e w"
proof (induction c e w rule: getWorkingDays_loop.induct)
  case (1 c e w)
  show ?case
  proof (cases "c \<le> e")
    case True
    have "w \<le> (if getDay c \<noteq> 0 \<and> getDay c \<noteq> 6 then w + 1 else w)" by simp
    also have "\<dots> \<le> getWorkingDays_loop (c + msPerDay) e
                      (if getDay c \<noteq> 0 \<and> getDay c \<noteq> 6 then w + 1 else w)"
      by (rule 1[OF True])
    finally show ?thesis using True by (subst getWorkingDays_loop.simps) simp
  next
    case False
    then show ?thesis by (subst getWorkingDays_loop.simps) simp
  qed
qed

lemma getWorkingDays_loop_step:
  "c \<le> e \<Longrightarrow> getWorkingDays_loop c e w =
     getWorkingDays_loop (c + msPerDay) e
       (if getDay c \<noteq> 0 \<and> getDay c \<noteq> 6 then w + 1 else w)"
  by (subst getWorkingDays_loop.simps) simp

lemma getDay_next: "getDay (t + msPerDay) = (getDay t + 1) mod 7"
  by (simp add: getDay_def msPerDay_def mod_simps)

lemma getDay_range: "0 \<le> getDay t" "getDay t < 7"
  by (simp_all add: getDay_def)

lemma getWorkingDays_loop_weekday:
  assumes "c \<le> e" "getDay c \<noteq> 0" "getDay c \<noteq> 6"
  shows "0 < getWorkingDays_loop c e w"
proof -
  have "getWorkingDays_loop c e w = getWorkingDays_loop (c + msPerDay) e (w + 1)"
    using assms by (simp add: getWorkingDays_loop_step)
  moreover have "w + 1 \<le> getWorkingDays_loop (c + msPerDay) e (w + 1)"
    by (rule getWorkingDays_loop_mono)
  ultimately show ?thesis by simp
qed

lemma getWorkingDays_loop_weekend:
  assumes "c \<le> e" "getDay c = 0 \<or> getDay c = 6"
  shows "getWorkingDays_loop c e w = getWorkingDays_loop (c + msPerDay) e w"
  using assms by (auto simp: getWorkingDays_loop_step)

lemma getWorkingDays_pos:
  assumes "s + 2 * msPerDay \<le> e"
  shows "0 < getWorkingDays s e"
proof -
  define s1 where "s1 = s + msPerDay"
  define s2 where "s2 = s1 + msPerDay"
  have d: "0 < msPerDay" by (simp add: msPerDay_def)
  have le: "s \<le> e" "s1 \<le> e" "s2 \<le> e"
    using assms d by (simp_all add: s1_def s2_def)
  have g1: "getDay s1 = (getDay s + 1) mod 7" unfolding s1_def by (rule getDay_next)
  have g2: "getDay s2 = (getDay s1 + 1) mod 7" unfolding s2_def by (rule getDay_next)
  consider "getDay s \<noteq> 0 \<and> getDay s \<noteq> 6" | "getDay s = 0" | "getDay s = 6" by blast
  then show ?thesis
  proof cases
    case 1
    then show ?thesis
      unfolding getWorkingDays_def by (intro getWorkingDays_loop_weekday le(1)) simp_all
  next
    case 2
    then have n: "getDay s1 = 1" by (simp add: g1)
    have "getWorkingDays s e = getWorkingDays_loop s1 e 0"
      unfolding getWorkingDays_def s1_def using 2 le(1) by (simp add: getWorkingDays_loop_weekend)
    moreover have "0 < getWorkingDays_loop s1 e 0"
      using n by (intro getWorkingDays_loop_weekday le(2)) simp_all
    ultimately show ?thesis by simp
  next
    case 3
    then have n: "getDay s1 = 0" by (simp add: g1)
    then have n2: "getDay s2 = 1" by (simp add: g2)
    have "getWorkingDays s e = getWorkingDays_loop s1 e 0"
      unfolding getWorkingDays_def s1_def using 3 le(1) by (simp add: getWorkingDays_loop_weekend)
    also have "\<dots> = getWorkingDays_loop s2 e 0"
      unfolding s2_def using n le(2) by (simp add: getWorkingDays_loop_weekend)
    finally have "getWorkingDays s e = getWorkingDays_loop s2 e 0" .
    moreover have "0 < getWorkingDays_loop s2 e 0"
      using n2 by (intro getWorkingDays_loop_weekday le(3)) simp_all
    ultimately show ?thesis by simp
  qed
qed

lemma period_workingDays_pos:
  assumes "newDate year (month - 1) 1 = Some s" "newDate year month 0 = Some e"
  shows "0 < getWorkingDays s e"
proof -
  define yr where "yr = (if 0 \<le> year \<and> year \<le> 99 then 1900 + year else year)"
  have s: "s = MakeDay yr (month - 1) 1 * msPerDay" and e: "e = MakeDay yr month 0 * msPerDay"
    using assms by (auto simp: newDate_def Let_def yr_def split: if_splits)
  have "s + 2 * msPerDay = (MakeDay yr (month - 1) 1 + 2) * msPerDay"
    by (simp add: s algebra_simps)
  also have "\<dots> \<le> MakeDay yr month 0 * msPerDay"
    using month_length[of yr month] by (intro mult_right_mono) (simp_all add: msPerDay_def)
  finally show ?thesis unfolding e by (rule getWorkingDays_pos)
qed

lemma DayFromYear_bound:
  assumes "- 270000 \<le> y" "y \<le> 270001"
  shows "\<bar>DayFromYear y\<bar> \<le> 99999000"
proof -
  have a: "(- 270000 - 1969) div 4 \<le> (y - 1969) div 4" "(y - 1969) div 4 \<le> (270001 - 1969) div 4"
    using assms by (intro zdiv_mono1; simp)+
  have b: "(- 270000 - 1901) div 100 \<le> (y - 1901) div 100" "(y - 1901) div 100 \<le> (270001 - 1901) div 100"
    using assms by (intro zdiv_mono1; simp)+
  have c: "(- 270000 - 1601) div 400 \<le> (y - 1601) div 400" "(y - 1601) div 400 \<le> (270001 - 1601) div 400"
    using assms by (intro zdiv_mono1; simp)+
  have gen: "lo1 \<le> a \<Longrightarrow> a \<le> hi1 \<Longrightarrow> lo2 \<le> b \<Longrightarrow> b \<le> hi2 \<Longrightarrow> lo3 \<le> c \<Longrightarrow> c \<le> hi3 \<Longrightarrow>
     lo1 = -67993 \<Longrightarrow> hi1 = 67008 \<Longrightarrow> lo2 = -2720 \<Longrightarrow> hi2 = 2681 \<Longrightarrow> lo3 = -680 \<Longrightarrow> hi3 = 671 \<Longrightarrow>
     \<bar>365 * (y - 1970) + a - b + c\<bar> \<le> 99999000" for a b c lo1 hi1 lo2 hi2 lo3 hi3 :: int
    using assms by simp
  show ?thesis unfolding DayFromYear_def
    by (rule gen[OF a b c]) simp_all
qed



lemma monthStart_bound:
  assumes "0 \<le> mn" "mn \<le> 11"
  shows "0 \<le> monthStart mn l" "monthStart mn l \<le> 335"
proof -
  from assms have "mn = 0 \<or> mn = 1 \<or> mn = 2 \<or> mn = 3 \<or> mn = 4 \<or> mn = 5 \<or> mn = 6 \<or> mn = 7
     \<or> mn = 8 \<or> mn = 9 \<or> mn = 10 \<or> mn = 11" by arith
  then show "0 \<le> monthStart mn l" "monthStart mn l \<le> 335"
    by (auto simp: monthStart_def)
qed

lemma MakeDay_bound:
  assumes "- 270000 \<le> yr" "yr \<le> 270000" "0 \<le> mi" "mi \<le> 12" "dt = 0 \<or> dt = 1"
  shows "\<bar>MakeDay yr mi dt\<bar> \<le> 100000000"
proof -
  have q: "0 \<le> mi div 12" "mi div 12 \<le> 1"
    using assms(3,4) zdiv_mono1[of mi 12 12] by (simp_all add: pos_imp_zdiv_nonneg_iff)
  have y: "\<bar>DayFromYear (yr + mi div 12)\<bar> \<le> 99999000"
    using assms(1,2) q by (intro DayFromYear_bound) simp_all
  have m: "0 \<le> monthStart (mi mod 12) l" "monthStart (mi mod 12) l \<le> 335" for l
    by (rule monthStart_bound; simp)+
  have gen: "\<bar>a\<bar> \<le> 99999000 \<Longrightarrow> 0 \<le> b \<Longrightarrow> b \<le> 335 \<Longrightarrow> dt = 0 \<or> dt = 1 \<Longrightarrow>
     \<bar>a + b + dt - 1\<bar> \<le> 100000000" for a b :: int
    by linarith
  show ?thesis
    unfolding MakeDay_def Let_def
    by (rule gen[OF y m[of "InLeapYear (yr + mi div 12)"] assms(5)])
qed

lemma newDate_inRange:
  assumes "inDateRange month year"
  shows "\<exists>s e. newDate year (month - 1) 1 = Some s \<and> newDate year month 0 = Some e"
proof -
  define yr where "yr = (if 0 \<le> year \<and> year \<le> 99 then 1900 + year else year)"
  have yr: "- 270000 \<le> yr" "yr \<le> 270000"
    using assms by (auto simp: yr_def inDateRange_def)
  have m: "0 \<le> month - 1" "month - 1 \<le> 12" "0 \<le> month" "month \<le> 12"
    using assms by (auto simp: inDateRange_def)
  have a: "\<bar>MakeDay yr (month - 1) 1\<bar> \<le> 100000000"
    by (rule MakeDay_bound[OF yr m(1,2)]) simp
  have b: "\<bar>MakeDay yr month 0\<bar> \<le> 100000000"
    by (rule MakeDay_bound[OF yr m(3,4)]) simp
  have c: "\<bar>x\<bar> \<le> 100000000 \<Longrightarrow> \<bar>x * msPerDay\<bar> \<le> 8640000000000000" for x :: int
    by (simp add: msPerDay_def abs_mult)
  show ?thesis
    using c[OF a] c[OF b] by (simp add: newDate_def Let_def yr_def[symmetric])
qed

subsection \<open>The calculator, equation by equation\<close>

lemma calculatePayroll_Some:
  assumes "newDate year (month - 1) 1 = Some s" "newDate year month 0 = Some e"
    "Employee_findById d eid = Some emp"
  shows "calculatePayroll d eid month year =
     Inr (breakdown emp (getWorkingDays s e) (length (Attendance_find d eid s e))
            (leaveDaysLoop (Leave_find d eid s e) s e)
            (overtimeHoursOf (Attendance_find d eid s e)))"
  using assms by (simp add: calculatePayroll_def Let_def)


lemma calculatePayroll_InrD:
  assumes "calculatePayroll d eid month year = Inr r"
  obtains s e emp where "newDate year (month - 1) 1 = Some s" "newDate year month 0 = Some e"
    "Employee_findById d eid = Some emp"
    "r = breakdown emp (getWorkingDays s e) (length (Attendance_find d eid s e))
            (leaveDaysLoop (Leave_find d eid s e) s e)
            (overtimeHoursOf (Attendance_find d eid s e))"
  using assms by (auto simp: calculatePayroll_def Let_def split: option.splits prod.splits)

lemma breakdown_netPay:
  "netPay (breakdown emp w a l ot) =
     grossPay (breakdown emp w a l ot)
       - (tax (deductions (breakdown emp w a l ot)) + pf (deductions (breakdown emp w a l ot))
          + esi (deductions (breakdown emp w a l ot))
          + professional (deductions (breakdown emp w a l ot))
          + otherDeduction (deductions (breakdown emp w a l ot))
          + unpaidLeave (deductions (breakdown emp w a l ot)))"
  by (simp add: breakdown_def Let_def)

lemma breakdown_grossPay:
  "grossPay (breakdown emp w a l ot) =
     salaryBasic emp
       + (salaryAllowance hra emp + salaryAllowance transport emp + salaryAllowance medical emp
          + salaryAllowance food emp + salaryAllowance otherAllowance emp)
       + ot * (salaryBasic emp / (of_nat w * 8)) * (15 / 10)"
  by (simp add: breakdown_def Let_def)

lemma breakdown_overtimeAmount:
  "overtimeAmount (breakdown emp w a l ot) = ot * (salaryBasic emp / (of_nat w * 8)) * (15 / 10)"
  by (simp add: breakdown_def Let_def)

lemma breakdown_deductions:
  "deductions (breakdown emp w a l ot) =
     \<lparr> tax = calculateTax (grossPay (breakdown emp w a l ot)),
       pf = min (grossPay (breakdown emp w a l ot) * (12 / 100)) 1800,
       esi = (if grossPay (breakdown emp w a l ot) \<le> 21000
              then grossPay (breakdown emp w a l ot) * (75 / 10000) else 0),
       professional = salaryDeduction cfg_professional emp,
       otherDeduction = salaryDeduction cfg_other emp,
       unpaidLeave = max 0 (of_int l - leaveBalanceAnnual emp) * (salaryBasic emp / of_nat w) \<rparr>"
  by (simp add: breakdown_def Let_def)

lemma breakdown_counts:
  "attendanceDays (breakdown emp w a l ot) = a"
  "workingDays (breakdown emp w a l ot) = w"
  "leaveDays (breakdown emp w a l ot) = l"
  "overtimeHours (breakdown emp w a l ot) = ot"
  "basicSalary (breakdown emp w a l ot) = salaryBasic emp"
  "taxAmount (breakdown emp w a l ot) = tax (deductions (breakdown emp w a l ot))"
  by (simp_all add: breakdown_def Let_def)

lemma april: "newDate 2024 3 1 = Some 1711929600000" "newDate 2024 4 0 = Some 1714435200000"
  by (simp_all add: newDate_def MakeDay_def DayFromYear_def monthStart_def InLeapYear_def msPerDay_def Let_def)

lemma april_wd: "getWorkingDays 1711929600000 1714435200000 = 22"
  by code_simp

lemma fold_add_sum_list:
  fixes g :: "'a \<Rightarrow> 'b::comm_monoid_add"
  shows "fold (\<lambda>x acc. acc + g x) xs a = a + sum_list (map g xs)"
  by (induction xs arbitrary: a) (simp_all add: add.assoc)

lemma overtimeHoursOf_sum:
  "overtimeHoursOf xs = sum_list (map (\<lambda>r. max 0 (orZero (hoursWorked r) - 8)) xs)"
  by (simp add: overtimeHoursOf_def fold_add_sum_list)

lemma leaveDaysLoop_sum:
  "leaveDaysLoop ls s e = sum_list (map (\<lambda>l. leaveDaysOf l s e) ls)"
  by (simp add: leaveDaysLoop_def fold_add_sum_list)

lemma overtimeHoursOf_none:
  assumes "\<forall>r \<in> set xs. orZero (hoursWorked r) \<le> 8"
  shows "overtimeHoursOf xs = 0"
  using assms unfolding overtimeHoursOf_sum by (induction xs) (simp_all add: max_def)

subsection \<open>Tax and the worked example\<close>

text \<open>
  C2. For every gross pay the monthly tax is the bracket table of the specification applied
  to the annualised amount \<open>grossPay * 12\<close>, divided by 12: nothing up to 250,000, 5 per cent
  of the excess up to 500,000, 12,500 plus 20 per cent of the excess up to 1,000,000, and
  112,500 plus 30 per cent of the excess beyond. At an annualised income of exactly 250,000
  the tax is 0 and at 250,001 it is positive.
\<close>

theorem calculateTax_brackets:
  "calculateTax g = spec_annualTax (g * 12) / 12
   \<and> calculateTax g =
       (if g * 12 \<le> 250000 then 0
        else if g * 12 \<le> 500000 then ((g * 12 - 250000) * (5 / 100)) / 12
        else if g * 12 \<le> 1000000 then (12500 + (g * 12 - 500000) * (20 / 100)) / 12
        else (112500 + (g * 12 - 1000000) * (30 / 100)) / 12)
   \<and> calculateTax (250000 / 12) = 0
   \<and> 0 < calculateTax (250001 / 12)"
  by (simp add: calculateTax_def spec_annualTax_def Let_def)

text \<open>
  C1. The end-to-end example: an employee with a basic salary of 22,000, no allowances and
  no configured professional or other deduction, in a period of 22 working days with 20
  attendance records, none above 8 hours, and no approved leave. The calculator returns
  gross pay 22000, provident fund 1800 (12 per cent would be 2640), no ESI, a monthly tax of
  \<open>((264000 - 250000) * 0.05) / 12 = 175/3\<close> (58.33...), no unpaid-leave deduction and the net
  pay \<open>22000 - 1800 - 175/3 = 60425/3\<close> (20141.66...). The annual leave balance is taken to
  be non-negative, as an allotment of days is.
\<close>

theorem end_to_end_example:
  assumes "Employee_findById d eid = Some emp"
    and "salaryBasic emp = 22000"
    and "salaryAllowance hra emp = 0" "salaryAllowance transport emp = 0"
      "salaryAllowance medical emp = 0" "salaryAllowance food emp = 0"
      "salaryAllowance otherAllowance emp = 0"
    and "salaryDeduction cfg_professional emp = 0" "salaryDeduction cfg_other emp = 0"
    and "newDate year (month - 1) 1 = Some s" "newDate year month 0 = Some e"
    and "getWorkingDays s e = 22"
    and "length (Attendance_find d eid s e) = 20"
    and "\<forall>r \<in> set (Attendance_find d eid s e). orZero (hoursWorked r) \<le> 8"
    and "Leave_find d eid s e = []"
    and "0 \<le> leaveBalanceAnnual emp"
  shows "\<exists>r. calculatePayroll d eid month year = Inr r
           \<and> grossPay r = 22000
           \<and> pf (deductions r) = 1800 \<and> min (22000 * (12 / 100)) 1800 = (1800 :: rat)
           \<and> esi (deductions r) = 0
           \<and> tax (deductions r) = ((264000 - 250000) * (5 / 100)) / 12
           \<and> taxAmount r = tax (deductions r)
           \<and> professional (deductions r) = 0 \<and> otherDeduction (deductions r) = 0
           \<and> unpaidLeave (deductions r) = 0
           \<and> netPay r = 22000 - 1800 - ((264000 - 250000) * (5 / 100)) / 12
           \<and> netPay r = 60425 / 3
           \<and> attendanceDays r = 20 \<and> workingDays r = 22 \<and> leaveDays r = 0
           \<and> overtimeHours r = 0 \<and> overtimeAmount r = 0"
proof -
  define r where "r = breakdown emp 22 20 0 0"
  have c: "calculatePayroll d eid month year = Inr r"
    using assms(10-15) overtimeHoursOf_none[OF assms(14)]
    by (simp add: calculatePayroll_Some[OF assms(10,11,1)] r_def leaveDaysLoop_def)
  have g: "grossPay r = 22000"
    unfolding r_def by (simp add: breakdown_grossPay assms)
  have t: "calculateTax 22000 = 175 / 3" by (simp add: calculateTax_def)
  have dd: "deductions r = \<lparr> tax = 175 / 3, pf = 1800, esi = 0, professional = 0,
      otherDeduction = 0, unpaidLeave = 0 \<rparr>"
    using g unfolding r_def by (simp add: breakdown_deductions assms t)
  have n: "netPay r = 60425 / 3"
    using g dd unfolding r_def by (simp add: breakdown_netPay)
  show ?thesis
    using c g dd n by (intro exI[of _ r]) (simp add: r_def breakdown_counts breakdown_overtimeAmount)
qed

theorem end_to_end_example_witness:
  "\<exists>r. calculatePayroll ex_db1 ''E1'' 4 2024 = Inr r
       \<and> grossPay r = 22000 \<and> pf (deductions r) = 1800 \<and> esi (deductions r) = 0
       \<and> tax (deductions r) = 175 / 3 \<and> unpaidLeave (deductions r) = 0
       \<and> netPay r = 60425 / 3 \<and> attendanceDays r = 20 \<and> workingDays r = 22"
proof -
  let ?emp = "ex_employee (Some 22000) None"
  have h1: "Employee_findById ex_db1 ''E1'' = Some ?emp"
    by (simp add: Employee_findById_def ex_db1_def ex_db_def ex_employee_def)
  have h2: "salaryBasic ?emp = 22000" by (simp add: salaryBasic_def ex_employee_def orZero_def)
  have h3: "salaryAllowance k ?emp = 0" for k
    by (simp add: salaryAllowance_def ex_employee_def orZero_def)
  have h4: "salaryDeduction cfg_professional ?emp = 0" "salaryDeduction cfg_other ?emp = 0"
    by (simp_all add: salaryDeduction_def ex_employee_def orZero_def)
  have h5: "newDate 2024 (4 - 1) 1 = Some 1711929600000" "newDate 2024 4 0 = Some 1714435200000"
    by (simp_all add: april)
  have h6: "getWorkingDays 1711929600000 1714435200000 = 22" by (rule april_wd)
  have h7: "length (Attendance_find ex_db1 ''E1'' 1711929600000 1714435200000) = 20"
    by code_simp
  have h8: "\<forall>r \<in> set (Attendance_find ex_db1 ''E1'' 1711929600000 1714435200000).
      orZero (hoursWorked r) \<le> 8"
    by code_simp
  have h9: "Leave_find ex_db1 ''E1'' 1711929600000 1714435200000 = []"
    by (simp add: Leave_find_def ex_db1_def ex_db_def)
  have h10: "0 \<le> leaveBalanceAnnual ?emp"
    by (simp add: leaveBalanceAnnual_def ex_employee_def orZero_def)
  from end_to_end_example[OF h1 h2 h3 h3 h3 h3 h3 h4 h5 h6 h7 h8 h9 h10]
  show ?thesis by (elim exE conjE, intro exI conjI) simp_all
qed

subsection \<open>Net pay and the ways to fail\<close>

lemma ex_db_find: "emp_id emp = ''E1'' \<Longrightarrow> Employee_findById (ex_db emp as ls) ''E1'' = Some emp"
  by (simp add: Employee_findById_def ex_db_def)

lemma ex_employee_id: "emp_id (ex_employee b p) = ''E1''"
  by (simp add: ex_employee_def)

lemma ex_db_april:
  "calculatePayroll (ex_db (ex_employee b p) as ls) ''E1'' 4 2024 =
     Inr (breakdown (ex_employee b p) 22
            (length (Attendance_find (ex_db (ex_employee b p) as ls) ''E1'' 1711929600000 1714435200000))
            (leaveDaysLoop (Leave_find (ex_db (ex_employee b p) as ls) ''E1'' 1711929600000 1714435200000)
               1711929600000 1714435200000)
            (overtimeHoursOf
               (Attendance_find (ex_db (ex_employee b p) as ls) ''E1'' 1711929600000 1714435200000)))"
proof -
  have a: "newDate 2024 (4 - 1) 1 = Some 1711929600000" "newDate 2024 4 0 = Some 1714435200000"
    by (simp_all add: april)
  show ?thesis
    by (simp add: calculatePayroll_Some[OF a ex_db_find[OF ex_employee_id]] april_wd)
qed

lemma ex_db_empty_queries:
  "Attendance_find (ex_db emp [] ls) i s e = []" "Leave_find (ex_db emp as []) i s e = []"
  by (simp_all add: Attendance_find_def Leave_find_def ex_db_def)

lemma ex_employee_amounts:
  "salaryBasic (ex_employee b p) = orZero b"
  "salaryAllowance k (ex_employee b p) = 0"
  "salaryDeduction cfg_professional (ex_employee b p) = orZero p"
  "salaryDeduction cfg_other (ex_employee b p) = 0"
  "leaveBalanceAnnual (ex_employee b p) = 20"
  by (simp_all add: salaryBasic_def salaryAllowance_def salaryDeduction_def leaveBalanceAnnual_def
      ex_employee_def orZero_def)

text \<open>
  C7. Whenever the calculator returns, the net pay is the gross pay minus the sum of the six
  deduction fields (tax, pf, esi, professional, other, unpaidLeave), with no clamping at
  zero: for the employee with a basic salary of 1000 and a professional deduction of 5000 the
  deductions (10255/2) exceed the gross pay (1000) and the returned net pay is -8255/2.
\<close>

theorem netPay_not_clamped:
  "(calculatePayroll d eid month year = Inr r \<longrightarrow>
      netPay r = grossPay r
        - (tax (deductions r) + pf (deductions r) + esi (deductions r)
           + professional (deductions r) + otherDeduction (deductions r)
           + unpaidLeave (deductions r)))
   \<and> (\<exists>r'. calculatePayroll (ex_db (ex_employee (Some 1000) (Some 5000)) [] []) ''E1'' 4 2024
              = Inr r'
            \<and> grossPay r' = 1000
            \<and> tax (deductions r') + pf (deductions r') + esi (deductions r')
                + professional (deductions r') + otherDeduction (deductions r')
                + unpaidLeave (deductions r') = 10255 / 2
            \<and> netPay r' = - (8255 / 2) \<and> netPay r' < 0)"
proof (intro conjI impI)
  assume "calculatePayroll d eid month year = Inr r"
  then show "netPay r = grossPay r
        - (tax (deductions r) + pf (deductions r) + esi (deductions r)
           + professional (deductions r) + otherDeduction (deductions r)
           + unpaidLeave (deductions r))"
    by (elim calculatePayroll_InrD) (simp only: breakdown_netPay)
next
  let ?r = "breakdown (ex_employee (Some 1000) (Some 5000)) 22 0 0 0"
  have c: "calculatePayroll (ex_db (ex_employee (Some 1000) (Some 5000)) [] []) ''E1'' 4 2024 = Inr ?r"
    by (simp add: ex_db_april ex_db_empty_queries leaveDaysLoop_def overtimeHoursOf_def)
  have g: "grossPay ?r = 1000"
    by (simp add: breakdown_grossPay ex_employee_amounts orZero_def)
  have t: "calculateTax 1000 = 0" by (simp add: calculateTax_def)
  have dd: "deductions ?r = \<lparr> tax = 0, pf = 120, esi = 15 / 2, professional = 5000,
      otherDeduction = 0, unpaidLeave = 0 \<rparr>"
    by (simp add: breakdown_deductions g ex_employee_amounts orZero_def t)
  have n: "netPay ?r = - (8255 / 2)"
    by (simp add: breakdown_netPay g dd)
  show "\<exists>r'. calculatePayroll (ex_db (ex_employee (Some 1000) (Some 5000)) [] []) ''E1'' 4 2024
              = Inr r'
            \<and> grossPay r' = 1000
            \<and> tax (deductions r') + pf (deductions r') + esi (deductions r')
                + professional (deductions r') + otherDeduction (deductions r')
                + unpaidLeave (deductions r') = 10255 / 2
            \<and> netPay r' = - (8255 / 2) \<and> netPay r' < 0"
    by (intro exI[of _ ?r]) (simp add: c g dd n)
qed

theorem netPay_not_clamped_witness:
  "\<exists>r. calculatePayroll (ex_db (ex_employee (Some 1000) (Some 5000)) [] []) ''E1'' 4 2024 = Inr r
     \<and> netPay r = grossPay r
        - (tax (deductions r) + pf (deductions r) + esi (deductions r)
           + professional (deductions r) + otherDeduction (deductions r)
           + unpaidLeave (deductions r))
     \<and> netPay r < 0"
proof -
  from netPay_not_clamped[of "ex_db (ex_employee (Some 22000) None) [] []" "''E1''" 4 2024]
  obtain r' where r': "calculatePayroll (ex_db (ex_employee (Some 1000) (Some 5000)) [] []) ''E1'' 4 2024 = Inr r'"
    "netPay r' < 0" by blast
  from netPay_not_clamped[of "ex_db (ex_employee (Some 1000) (Some 5000)) [] []" "''E1''" 4 2024 r'] r'
  show ?thesis by blast
qed

text \<open>
  Where the calculator returns: for an employee that exists and a month 1..12 of a year
  between -270000 and 270000 it returns a breakdown, and the working-day count of the
  period is positive, so that neither rate divides by zero.
\<close>

lemma calculatePayroll_returns:
  assumes "inDateRange month year" "Employee_findById d eid = Some emp"
  shows "\<exists>r. calculatePayroll d eid month year = Inr r \<and> 0 < workingDays r"
proof -
  from newDate_inRange[OF assms(1)] obtain s e where
    se: "newDate year (month - 1) 1 = Some s" "newDate year month 0 = Some e" by blast
  have "0 < getWorkingDays s e" by (rule period_workingDays_pos[OF se])
  then show ?thesis by (simp add: calculatePayroll_Some[OF se assms(2)] breakdown_counts)
qed


subsection \<open>Overtime\<close>

lemma sum_list_overtime_filter:
  "sum_list (map (\<lambda>r. max 0 (orZero (hoursWorked r) - 8)) (filter (\<lambda>r. 8 < orZero (hoursWorked r)) xs))
   = sum_list (map (\<lambda>r. max 0 (orZero (hoursWorked r) - 8)) xs)"
  by (induction xs) (simp_all add: max_def)

lemma overtimeHoursOf_filter:
  "overtimeHoursOf (filter (\<lambda>r. 8 < orZero (hoursWorked r)) xs) = overtimeHoursOf xs"
  by (simp add: overtimeHoursOf_sum sum_list_overtime_filter)

lemma Attendance_find_overtime:
  "filter (\<lambda>r. 8 < orZero (hoursWorked r)) (Attendance_find d eid s e) =
   filter (\<lambda>r. att_employee r = eid \<and> s \<le> att_date r \<and> att_date r \<le> e \<and> checkInTime r \<noteq> None)
     (filter (\<lambda>r. 8 < orZero (hoursWorked r)) (Attendances d))"
  by (auto simp: Attendance_find_def intro: filter_cong)

lemma Leave_find_cong: "Leaves d' = Leaves d \<Longrightarrow> Leave_find d' eid s e = Leave_find d eid s e"
  by (simp add: Leave_find_def)

lemma Employee_findById_cong:
  "Employees d' = Employees d \<Longrightarrow> Employee_findById d' eid = Employee_findById d eid"
  by (simp add: Employee_findById_def)

lemma overtimeHoursOf_append:
  "overtimeHoursOf (xs @ ys) = overtimeHoursOf xs + overtimeHoursOf ys"
  by (simp add: overtimeHoursOf_sum)

lemma overtimeHoursOf_Cons:
  "overtimeHoursOf (x # xs) = max 0 (orZero (hoursWorked x) - 8) + overtimeHoursOf xs"
  by (simp add: overtimeHoursOf_sum)

lemma Attendance_find_split:
  assumes "Attendances d = xs @ rec # ys"
    and "att_employee rec = eid" "checkInTime rec \<noteq> None" "s \<le> att_date rec" "att_date rec \<le> e"
  shows "Attendance_find d eid s e =
     Attendance_find (d\<lparr>Attendances := xs\<rparr>) eid s e @ rec #
     Attendance_find (d\<lparr>Attendances := ys\<rparr>) eid s e"
  using assms by (simp add: Attendance_find_def)

text \<open>
  C10. Two inputs that differ only in the presence of attendance records of at most 8 hours
  (the employees and the leave records are the same, and so are the attendance records above
  8 hours, in the same order) give the same breakdown except for \<open>attendanceDays\<close>: the same
  gross pay, net pay, deductions, tax and overtime. The number of days attended reaches no
  amount.
\<close>

theorem attendance_count_only:
  assumes "Employees d' = Employees d" "Leaves d' = Leaves d"
    and "filter (\<lambda>r. 8 < orZero (hoursWorked r)) (Attendances d')
         = filter (\<lambda>r. 8 < orZero (hoursWorked r)) (Attendances d)"
    and "calculatePayroll d eid month year = Inr r"
  shows "\<exists>r'. calculatePayroll d' eid month year = Inr r'
           \<and> r' = r\<lparr> attendanceDays := attendanceDays r' \<rparr>
           \<and> grossPay r' = grossPay r \<and> netPay r' = netPay r
           \<and> deductions r' = deductions r \<and> taxAmount r' = taxAmount r
           \<and> overtimeHours r' = overtimeHours r \<and> overtimeAmount r' = overtimeAmount r"
proof -
  from assms(4) obtain s e emp where
    se: "newDate year (month - 1) 1 = Some s" "newDate year month 0 = Some e"
    and emp: "Employee_findById d eid = Some emp"
    and r: "r = breakdown emp (getWorkingDays s e) (length (Attendance_find d eid s e))
            (leaveDaysLoop (Leave_find d eid s e) s e)
            (overtimeHoursOf (Attendance_find d eid s e))"
    by (rule calculatePayroll_InrD)
  have emp': "Employee_findById d' eid = Some emp"
    using emp by (simp add: Employee_findById_cong[OF assms(1)])
  have "overtimeHoursOf (Attendance_find d' eid s e)
      = overtimeHoursOf (filter (\<lambda>r. 8 < orZero (hoursWorked r)) (Attendance_find d' eid s e))"
    by (simp only: overtimeHoursOf_filter)
  also have "\<dots> = overtimeHoursOf (filter (\<lambda>r. 8 < orZero (hoursWorked r)) (Attendance_find d eid s e))"
    by (simp only: Attendance_find_overtime assms(3))
  also have "\<dots> = overtimeHoursOf (Attendance_find d eid s e)"
    by (simp only: overtimeHoursOf_filter)
  finally have ot: "overtimeHoursOf (Attendance_find d' eid s e)
      = overtimeHoursOf (Attendance_find d eid s e)" .
  define r' where "r' = breakdown emp (getWorkingDays s e) (length (Attendance_find d' eid s e))
            (leaveDaysLoop (Leave_find d eid s e) s e)
            (overtimeHoursOf (Attendance_find d eid s e))"
  have c: "calculatePayroll d' eid month year = Inr r'"
    by (simp add: calculatePayroll_Some[OF se emp'] r'_def ot Leave_find_cong[OF assms(2)])
  have eq: "r' = r\<lparr> attendanceDays := attendanceDays r' \<rparr>"
    unfolding r'_def r by (simp add: breakdown_def Let_def)
  have f: "grossPay r' = grossPay r" "netPay r' = netPay r" "deductions r' = deductions r"
    "taxAmount r' = taxAmount r" "overtimeHours r' = overtimeHours r"
    "overtimeAmount r' = overtimeAmount r"
    by (subst eq, simp)+
  show ?thesis using c eq f by blast
qed

theorem attendance_count_only_witness:
  "\<exists>r r'. calculatePayroll (ex_db ex_emp1 [ex_attendance 0 10] []) ''E1'' 4 2024 = Inr r
     \<and> calculatePayroll (ex_db ex_emp1 [ex_attendance 0 10, ex_attendance 1 8, ex_attendance 2 6] [])
          ''E1'' 4 2024 = Inr r'
     \<and> attendanceDays r = 1 \<and> attendanceDays r' = 3
     \<and> grossPay r' = grossPay r \<and> netPay r' = netPay r \<and> deductions r' = deductions r"
proof -
  let ?d = "ex_db ex_emp1 [ex_attendance 0 10] []"
  let ?d' = "ex_db ex_emp1 [ex_attendance 0 10, ex_attendance 1 8, ex_attendance 2 6] []"
  have a1: "length (Attendance_find ?d ''E1'' 1711929600000 1714435200000) = 1"
    by (simp add: Attendance_find_def ex_db_def ex_attendance_def msPerDay_def)
  have a3: "length (Attendance_find ?d' ''E1'' 1711929600000 1714435200000) = 3"
    by (simp add: Attendance_find_def ex_db_def ex_attendance_def msPerDay_def)
  obtain r where r: "calculatePayroll ?d ''E1'' 4 2024 = Inr r" "attendanceDays r = 1"
    by (simp add: ex_emp1_def ex_db_april breakdown_counts a1[unfolded ex_emp1_def])
  have h1: "Employees ?d' = Employees ?d" and h2: "Leaves ?d' = Leaves ?d"
    by (simp_all add: ex_db_def)
  have h3: "filter (\<lambda>r. 8 < orZero (hoursWorked r)) (Attendances ?d')
         = filter (\<lambda>r. 8 < orZero (hoursWorked r)) (Attendances ?d)"
    by (simp add: ex_db_def ex_attendance_def orZero_def)
  from attendance_count_only[OF h1 h2 h3 r(1)] obtain r' where
    r': "calculatePayroll ?d' ''E1'' 4 2024 = Inr r'" "grossPay r' = grossPay r"
      "netPay r' = netPay r" "deductions r' = deductions r" by blast
  have "attendanceDays r' = 3"
    using r'(1) by (auto simp: ex_emp1_def ex_db_april breakdown_counts a3[unfolded ex_emp1_def])
  with r r' show ?thesis by blast
qed




subsection \<open>Leave days\<close>

lemma leaveDaysOf_numberOfDaysBetween:
  "leaveDaysOf l s e = numberOfDaysBetween (max (startDate l) s) (min (endDate l) e)"
  by (simp add: leaveDaysOf_def numberOfDaysBetween_def msPerDay_def Let_def)

lemma leaveDaysLoop_spec:
  "leaveDaysLoop (Leave_find d eid s e) s e = spec_leaveDays (Leaves d) eid s e"
  by (simp add: leaveDaysLoop_sum spec_leaveDays_def Leave_find_def leaveDaysOf_numberOfDaysBetween)

text \<open>
  What the calculator counts: the clipped sum of the specification, taken over the interval
  from \<^verbatim>\<open>new Date(year, month - 1, 1)\<close> to \<^verbatim>\<open>new Date(year, month, 0)\<close>. The
  second instant is 00:00 of the last day of the month, so the interval leaves out that
  day but for its first instant.
\<close>

lemma leaveDays_counted:
  assumes "calculatePayroll d eid month year = Inr r"
    and "newDate year (month - 1) 1 = Some s" "newDate year month 0 = Some e"
  shows "leaveDays r = spec_leaveDays (Leaves d) eid s e"
proof -
  from assms(1) obtain s' e' emp where
    se: "newDate year (month - 1) 1 = Some s'" "newDate year month 0 = Some e'"
    and r: "r = breakdown emp (getWorkingDays s' e') (length (Attendance_find d eid s' e'))
            (leaveDaysLoop (Leave_find d eid s' e') s' e')
            (overtimeHoursOf (Attendance_find d eid s' e'))"
    by (rule calculatePayroll_InrD)
  have "s' = s" "e' = e" using se assms(2,3) by simp_all
  then show ?thesis by (simp add: r breakdown_counts leaveDaysLoop_spec)
qed

lemma may: "newDate 2024 4 1 = Some 1714521600000" "newDate 2024 5 0 = Some 1717113600000"
  by (simp_all add: newDate_def MakeDay_def DayFromYear_def monthStart_def InLeapYear_def
      msPerDay_def Let_def)

lemma ex_db_lastDay_find:
  "Employee_findById ex_db_lastDay ''E1'' = Some ex_emp1"
  by (simp add: ex_db_lastDay_def ex_emp1_def ex_db_find ex_employee_id)

lemma ex_db_lastDay_leaves:
  "Leave_find ex_db_lastDay ''E1'' 1711929600000 1714435200000 = []"
  "Leave_find ex_db_lastDay ''E1'' 1714521600000 1717113600000 = []"
  by (simp_all add: Leave_find_def ex_db_lastDay_def ex_db_def ex_leave_lastDay_def)

text \<open>
  C8. An approved leave on 30 April 2024 from 09:00 to 18:00 lies inside April (it starts
  after 1 April 00:00 and ends before 1 May 00:00), yet the calculator counts no leave day
  for April, and none for May: the query for the month,
  \<^verbatim>\<open>startDate: {$lte: endDate}\<close> with \<^verbatim>\<open>endDate = new Date(year, month, 0)\<close>,
  ends at 00:00 of the month's last day and does not select the record. The clipped sum of
  the specification over the whole of April, up to its last millisecond, is 2, the
  record's \<open>numberOfDays\<close>.
\<close>

theorem leaveDays_last_day_missed:
  "lv_status ex_leave_lastDay = ''approved''
   \<and> 1711929600000 \<le> startDate ex_leave_lastDay
   \<and> endDate ex_leave_lastDay < 1714521600000
   \<and> numberOfDays ex_leave_lastDay = 2
   \<and> spec_leaveDays (Leaves ex_db_lastDay) ''E1'' 1711929600000 1714521599999 = 2
   \<and> map_sum id leaveDays (calculatePayroll ex_db_lastDay ''E1'' 4 2024) = Inr 0
   \<and> map_sum id leaveDays (calculatePayroll ex_db_lastDay ''E1'' 5 2024) = Inr 0"
proof -
  have a: "newDate 2024 (4 - 1) 1 = Some 1711929600000" "newDate 2024 4 0 = Some 1714435200000"
    by (simp_all add: april)
  have m: "newDate 2024 (5 - 1) 1 = Some 1714521600000" "newDate 2024 5 0 = Some 1717113600000"
    by (simp_all add: may)
  have l: "lv_status ex_leave_lastDay = ''approved''"
    "1711929600000 \<le> startDate ex_leave_lastDay"
    "endDate ex_leave_lastDay < 1714521600000"
    by (simp_all add: ex_leave_lastDay_def)
  have "\<lceil>(3 / 8 :: rat)\<rceil> = 1" by (rule ceiling_unique) simp_all
  then have n: "numberOfDays ex_leave_lastDay = 2"
    and p: "spec_leaveDays (Leaves ex_db_lastDay) ''E1'' 1711929600000 1714521599999 = 2"
    by (simp_all add: ex_leave_lastDay_def numberOfDaysBetween_def spec_leaveDays_def
        ex_db_lastDay_def ex_db_def)
  have x: "map_sum id leaveDays (calculatePayroll ex_db_lastDay ''E1'' 4 2024) = Inr 0"
    by (simp add: calculatePayroll_Some[OF a ex_db_lastDay_find] breakdown_counts
        ex_db_lastDay_leaves leaveDaysLoop_def)
  have y: "map_sum id leaveDays (calculatePayroll ex_db_lastDay ''E1'' 5 2024) = Inr 0"
    by (simp add: calculatePayroll_Some[OF m ex_db_lastDay_find] breakdown_counts
        ex_db_lastDay_leaves leaveDaysLoop_def)
  show ?thesis using l n p x y by simp
qed

subsection \<open>Record lifecycle\<close>

lemma newPayroll_invalid: "\<not> Payroll_validate (newPayroll d eid m y pd u now)"
  by (simp add: Payroll_validate_def newPayroll_def)

lemma Payroll_insert_newPayroll:
  "Payroll_insert d (newPayroll d eid m y pd u now) = Inl ValidationError"
  by (simp add: Payroll_insert_def newPayroll_invalid)

text \<open>
  The document that \<^verbatim>\<open>generatePayroll\<close> builds never passes the validators (among others
  \<^verbatim>\<open>'pending'\<close> is not in the \<^verbatim>\<open>enum\<close> of \<^verbatim>\<open>status\<close> and \<^verbatim>\<open>createdBy\<close> is
  required), so the handler stores nothing and never answers 201, whatever the request.
\<close>

lemma generatePayroll_store: "snd (generatePayroll lib d req now) = d"
  by (simp add: generatePayroll_def Let_def Payroll_insert_newPayroll
      split: option.splits sum.splits)

lemma generatePayroll_not_Created: "fst (generatePayroll lib d req now) \<noteq> Created p"
  by (simp add: generatePayroll_def Let_def Payroll_insert_newPayroll
      split: option.splits sum.splits)

lemma ex_db0_queries:
  "Employee_findById ex_db0 ''E1'' = Some ex_emp1"
  "Payroll_findOne lib ex_db0 ''E1'' 4 2024 = None"
  "Payrolls ex_db0 = []"
proof -
  show "Employee_findById ex_db0 ''E1'' = Some ex_emp1"
    by (simp add: ex_db0_def ex_emp1_def ex_db_find ex_employee_id)
  show "Payroll_findOne lib ex_db0 ''E1'' 4 2024 = None" "Payrolls ex_db0 = []"
    by (simp_all add: ex_db0_def Payroll_findOne_def ex_db_def)
qed

lemma ex_req_fields:
  "body_employeeId ex_req = Some ''E1''" "body_month ex_req = Some 4"
  "body_year ex_req = Some 2024"
  by (simp_all add: ex_req_def)

lemma ex_db0_april:
  "calculatePayroll ex_db0 ''E1'' 4 2024 = Inr (breakdown ex_emp1 22 0 0 0)"
  by (simp add: ex_db0_def ex_emp1_def ex_db_april ex_db_empty_queries leaveDaysLoop_def
      overtimeHoursOf_def)

text \<open>
  C3. Employee \<open>E1\<close> exists and no payroll is stored; the request is to generate the
  payroll of \<open>E1\<close> for April 2024. The calculator returns a breakdown, \<^verbatim>\<open>save()\<close> throws,
  and the handler answers 500 and leaves the collections as they were: no record with
  status \<^verbatim>\<open>'pending'\<close> is persisted.
\<close>

theorem generatePayroll_not_persisted:
  "calculatePayroll ex_db0 ''E1'' 4 2024 = Inr (breakdown ex_emp1 22 0 0 0)
   \<and> generatePayroll lib ex_db0 ex_req 100
       = (ServerError ''Failed to generate payroll'', ex_db0)"
  by (simp add: generatePayroll_def falsyStr_def falsyNum_def Let_def ex_req_fields
      ex_db0_queries ex_db0_april Payroll_insert_newPayroll)

text \<open>
  The existence test of \<^verbatim>\<open>generatePayroll\<close> filters on \<^verbatim>\<open>month\<close> and \<^verbatim>\<open>year\<close>,
  which are not paths of the schema. With \<open>strictQuery\<close> the payroll of another month is
  taken for the month's: the stored payroll of March 2024 refuses the request for April.
\<close>

lemma generatePayroll_other_month:
  "generatePayroll \<lparr> strictQuery = True, strictPopulate = sp \<rparr> ex_db_paid ex_req 100
     = (BadRequest ''Payroll for this month already exists'', ex_db_paid)"
  by (simp add: generatePayroll_def falsyStr_def falsyNum_def Let_def ex_req_fields
      Payroll_findOne_def ex_db_paid_def ex_db0_def ex_db_def ex_payroll_paid_def
      Employee_findById_def ex_emp1_def ex_employee_def)

lemma ex_payroll_paid_valid: "Payroll_validate ex_payroll_paid"
  by (simp add: Payroll_validate_def ex_payroll_paid_def requiredMin0_def optionalMin0_def
      deductions_valid_def Payroll_statuses_def)

lemma ex_payroll_approved_valid:
  "Payroll_validate (ex_payroll_paid\<lparr> p_status := ''approved'', p_updatedBy := Some u,
      p_updatedAt := Some t \<rparr>)"
  by (simp add: Payroll_validate_def ex_payroll_paid_def requiredMin0_def optionalMin0_def
      deductions_valid_def Payroll_statuses_def)

lemma preSave_fields:
  "p_id (preSave p) = p_id p" "p_status (preSave p) = p_status p"
  "p_employee (preSave p) = p_employee p"
  "p_updatedBy (preSave p) = p_updatedBy p" "p_updatedAt (preSave p) = p_updatedAt p"
  "aw_approvedBy (preSave p) = aw_approvedBy p" "aw_approvalDate (preSave p) = aw_approvalDate p"
  by (simp_all add: preSave_def Let_def)

lemma ex_db_paid_queries:
  "Payroll_findById ex_db_paid 0 = Some ex_payroll_paid"
  "Payrolls ex_db_paid = [ex_payroll_paid]"
  "Employee_findById ex_db_paid ''E1'' = Some ex_emp1"
  "AuditLogs ex_db_paid = []"
  by (simp_all add: Payroll_findById_def ex_db_paid_def ex_db0_def ex_db_def ex_payroll_paid_def
      Employee_findById_def ex_emp1_def ex_employee_def)

lemma ex_payroll_paid_fields:
  "p_id ex_payroll_paid = 0" "p_status ex_payroll_paid = ''paid''"
  "p_employee ex_payroll_paid = Some ''E1''"
  "aw_approvedBy ex_payroll_paid = Some ''U0''"
  "aw_approvalDate ex_payroll_paid = Some 1711965600000"
  by (simp_all add: ex_payroll_paid_def)

lemma audit_approve_valid:
  "AuditLog_validate (auditEntry ex_req_approve ''payroll_approve'' (Some i) ''PUT'' 200)"
  by (simp add: AuditLog_validate_def auditEntry_def ex_req_approve_def AuditLog_actions_def
      AuditLog_resourceTypes_def AuditLog_methods_def trimStr_def isWhite_def)

lemma audit_reject_invalid:
  "\<not> AuditLog_validate (auditEntry req ''payroll_reject'' rid method code)"
  by (simp add: AuditLog_validate_def auditEntry_def AuditLog_actions_def)

lemma audit_bulk_invalid:
  "\<not> AuditLog_validate (auditEntry req ''payroll_bulk_generate'' None method code)"
  by (simp add: AuditLog_validate_def auditEntry_def AuditLog_actions_def)

lemma approvePayroll_paid_stored:
  "Payrolls (snd (approvePayroll lib ex_db_paid 0 ex_req_approve 300))
     = [preSave (ex_payroll_paid\<lparr> p_status := ''approved'', p_updatedBy := Some ''U3'',
           p_updatedAt := Some 300 \<rparr>)]"
  by (simp add: approvePayroll_def ex_db_paid_queries ex_payroll_paid_fields Let_def
      Payroll_update_def ex_payroll_approved_valid ex_req_approve_def AuditLog_createLog_def
      audit_approve_valid[unfolded ex_req_approve_def])

lemma approvePayroll_paid_answer:
  "fst (approvePayroll lib ex_db_paid 0 ex_req_approve 300)
       = (if strictPopulate lib then ServerError ''Failed to approve payroll''
          else Success (preSave (ex_payroll_paid\<lparr> p_status := ''approved'',
                 p_updatedBy := Some ''U3'', p_updatedAt := Some 300 \<rparr>)))"
  by (simp add: approvePayroll_def ex_db_paid_queries ex_payroll_paid_fields Let_def
      Payroll_update_def ex_payroll_approved_valid ex_req_approve_def AuditLog_createLog_def
      audit_approve_valid[unfolded ex_req_approve_def])

lemma rejectPayroll_paid:
  "rejectPayroll lib ex_db_paid 0 ex_req_approve 300
       = (BadRequest ''Payroll has already been processed'', ex_db_paid)"
  by (simp add: rejectPayroll_def ex_db_paid_queries ex_payroll_paid_fields)

text \<open>
  C4. The stored payroll of \<open>E1\<close> for March 2024 has the status \<^verbatim>\<open>'paid'\<close> and passes the
  validators. \<^verbatim>\<open>approvePayroll\<close> tests \<^verbatim>\<open>payroll.status === 'approved'\<close> only: on
  this record it does not refuse; it stores the status \<^verbatim>\<open>'approved'\<close> and the user of the
  request as \<^verbatim>\<open>updatedBy\<close>, and leaves the approver and the approval date of the schema
  (\<^verbatim>\<open>approvalWorkflow\<close>) as they were. Its answer is 200 with the document, or, when
  \<^verbatim>\<open>populate('approvedBy')\<close> throws, 500 after the record was changed.
  \<^verbatim>\<open>rejectPayroll\<close>, which tests \<^verbatim>\<open>payroll.status !== 'pending'\<close>, refuses the same
  record and changes nothing.
\<close>

theorem approvePayroll_paid_record:
  "p_status ex_payroll_paid = ''paid''
   \<and> Payroll_validate ex_payroll_paid
   \<and> map p_status (Payrolls (snd (approvePayroll lib ex_db_paid 0 ex_req_approve 300)))
       = [''approved'']
   \<and> map p_updatedBy (Payrolls (snd (approvePayroll lib ex_db_paid 0 ex_req_approve 300)))
       = [Some ''U3'']
   \<and> map aw_approvedBy (Payrolls (snd (approvePayroll lib ex_db_paid 0 ex_req_approve 300)))
       = [Some ''U0'']
   \<and> map aw_approvalDate (Payrolls (snd (approvePayroll lib ex_db_paid 0 ex_req_approve 300)))
       = [Some 1711965600000]
   \<and> fst (approvePayroll lib ex_db_paid 0 ex_req_approve 300)
       = (if strictPopulate lib then ServerError ''Failed to approve payroll''
          else Success (preSave (ex_payroll_paid\<lparr> p_status := ''approved'',
                 p_updatedBy := Some ''U3'', p_updatedAt := Some 300 \<rparr>)))
   \<and> rejectPayroll lib ex_db_paid 0 ex_req_approve 300
       = (BadRequest ''Payroll has already been processed'', ex_db_paid)"
  by (simp add: approvePayroll_paid_stored approvePayroll_paid_answer rejectPayroll_paid
      preSave_fields ex_payroll_paid_fields ex_payroll_paid_valid)

text \<open>
  \<^verbatim>\<open>rejectPayroll\<close> never stores a rejection and never answers 200: a record whose status
  is not \<^verbatim>\<open>'pending'\<close> is refused, and for one whose status is, \<^verbatim>\<open>save()\<close> throws
  because \<^verbatim>\<open>'rejected'\<close> is not in the \<^verbatim>\<open>enum\<close> of \<^verbatim>\<open>status\<close>.
\<close>

lemma rejectPayroll_store: "snd (rejectPayroll lib d i req now) = d"
  by (simp add: rejectPayroll_def Let_def Payroll_update_def Payroll_validate_def
      Payroll_statuses_def split: option.splits)

lemma rejectPayroll_not_Success: "fst (rejectPayroll lib d i req now) \<noteq> Success p"
  by (simp add: rejectPayroll_def Let_def Payroll_update_def Payroll_validate_def
      Payroll_statuses_def split: option.splits)

subsection \<open>Bulk generation\<close>

text \<open>
  Every turn of the loop ends in \<open>failed\<close>: with the message of the existence test, with
  the calculator's error, or, when the calculator returned a breakdown, with the validation
  error of \<^verbatim>\<open>save()\<close>. The collections stay as they were.
\<close>

lemma bulkStep_failed:
  "bulkStep lib m y u now employee (d, r)
     = (d, r\<lparr> failed := failed r @
          [\<lparr> f_employee = employee,
             f_error =
               (case Payroll_findOne lib d (emp_id employee) m y of
                  Some existingPayroll \<Rightarrow> ''Payroll already exists for this month''
                | None \<Rightarrow>
                    (case calculatePayroll d (emp_id employee) m y of
                       Inl err \<Rightarrow> errorMessage err
                     | Inr payrollData \<Rightarrow> saveErrorMessage ValidationError)) \<rparr>] \<rparr>)"
  by (simp add: bulkStep_def Let_def Payroll_insert_newPayroll split: option.splits sum.splits)

lemma bulkLoop_failed:
  "bulkLoop lib m y u now es (d, r)
     = (d, r\<lparr> failed := failed r @
          map (\<lambda>employee.
                 \<lparr> f_employee = employee,
                   f_error =
                     (case Payroll_findOne lib d (emp_id employee) m y of
                        Some existingPayroll \<Rightarrow> ''Payroll already exists for this month''
                      | None \<Rightarrow>
                          (case calculatePayroll d (emp_id employee) m y of
                             Inl err \<Rightarrow> errorMessage err
                           | Inr payrollData \<Rightarrow> saveErrorMessage ValidationError)) \<rparr>)
            es \<rparr>)"
proof (induction es arbitrary: r)
  case Nil
  show ?case by simp
next
  case (Cons e es)
  show ?case by (simp add: bulkStep_failed Cons.IH)
qed

text \<open>
  The audit entry after the loop never passes the validators of the AuditLog schema
  (\<^verbatim>\<open>'payroll_bulk_generate'\<close> is not in the \<^verbatim>\<open>enum\<close> of \<^verbatim>\<open>action\<close>, and
  \<^verbatim>\<open>resource.id\<close> is \<^verbatim>\<open>null\<close> where it is required), so that for every request with
  a month and a year the handler answers 500, not the two lists.
\<close>

lemma generateBulkPayroll_answer:
  "generateBulkPayroll lib d req now =
     (if falsyNum (body_month req) \<or> falsyNum (body_year req)
      then BadRequest ''Month and year are required''
      else ServerError ''Failed to generate bulk payroll'', d)"
  by (simp add: generateBulkPayroll_def Let_def AuditLog_createLog_def audit_bulk_invalid
      bulkLoop_failed)

lemma ex_db_bulk_find:
  "Employee_findById ex_db_bulk ''E1'' = Some ex_emp1"
  "Employee_findById ex_db_bulk ''E2'' = Some ex_emp2"
  "emp_id ex_emp1 = ''E1''" "emp_id ex_emp2 = ''E2''"
  by (simp_all add: Employee_findById_def ex_db_bulk_def ex_emp2_def ex_emp1_def ex_employee_def)

lemma ex_db_bulk_active: "Employee_findActive lib ex_db_bulk None = [ex_emp1, ex_emp2]"
  by (simp add: Employee_findActive_def ex_db_bulk_def falsyStr_def ex_emp2_def ex_emp1_def
      ex_employee_def)

lemma ex_db_bulk_calc:
  "\<exists>r. calculatePayroll ex_db_bulk ''E1'' 4 2024 = Inr r"
  "\<exists>r. calculatePayroll ex_db_bulk ''E2'' 4 2024 = Inr r"
proof -
  have a: "newDate 2024 (4 - 1) 1 = Some 1711929600000" "newDate 2024 4 0 = Some 1714435200000"
    by (simp_all add: april)
  show "\<exists>r. calculatePayroll ex_db_bulk ''E1'' 4 2024 = Inr r"
    by (simp add: calculatePayroll_Some[OF a ex_db_bulk_find(1)])
  show "\<exists>r. calculatePayroll ex_db_bulk ''E2'' 4 2024 = Inr r"
    by (simp add: calculatePayroll_Some[OF a ex_db_bulk_find(2)])
qed

text \<open>
  C6. Two active employees, \<open>E1\<close> and \<open>E2\<close>, no payroll stored; the request is to generate
  the payrolls of April 2024. The loop takes both employees and puts both into \<open>failed\<close>
  with the validation error of \<^verbatim>\<open>save()\<close>; then \<^verbatim>\<open>AuditLog.createLog\<close> throws, and the
  handler answers 500 instead of returning the two lists.
\<close>

theorem generateBulkPayroll_no_partition:
  "Employee_findActive lib ex_db_bulk (body_departmentId ex_req_bulk) = [ex_emp1, ex_emp2]
   \<and> bulkLoop lib 4 2024 ''U1'' 100 [ex_emp1, ex_emp2]
         (ex_db_bulk, \<lparr> successful = [], failed = [] \<rparr>)
       = (ex_db_bulk,
          \<lparr> successful = [],
            failed = [\<lparr> f_employee = ex_emp1, f_error = ''Payroll validation failed'' \<rparr>,
                      \<lparr> f_employee = ex_emp2, f_error = ''Payroll validation failed'' \<rparr>] \<rparr>)
   \<and> generateBulkPayroll lib ex_db_bulk ex_req_bulk 100
       = (ServerError ''Failed to generate bulk payroll'', ex_db_bulk)"
proof -
  have f: "Payroll_findOne lib ex_db_bulk eid 4 2024 = None" for eid
    by (simp add: Payroll_findOne_def ex_db_bulk_def)
  obtain r1 r2 where c: "calculatePayroll ex_db_bulk ''E1'' 4 2024 = Inr r1"
    "calculatePayroll ex_db_bulk ''E2'' 4 2024 = Inr r2"
    using ex_db_bulk_calc by blast
  have a: "Employee_findActive lib ex_db_bulk (body_departmentId ex_req_bulk) = [ex_emp1, ex_emp2]"
    by (simp add: ex_req_bulk_def ex_db_bulk_active)
  have l: "bulkLoop lib 4 2024 ''U1'' 100 [ex_emp1, ex_emp2]
         (ex_db_bulk, \<lparr> successful = [], failed = [] \<rparr>)
       = (ex_db_bulk,
          \<lparr> successful = [],
            failed = [\<lparr> f_employee = ex_emp1, f_error = ''Payroll validation failed'' \<rparr>,
                      \<lparr> f_employee = ex_emp2, f_error = ''Payroll validation failed'' \<rparr>] \<rparr>)"
    by (simp add: bulkLoop_failed ex_db_bulk_find f c saveErrorMessage_def)
  have g: "generateBulkPayroll lib ex_db_bulk ex_req_bulk 100
       = (ServerError ''Failed to generate bulk payroll'', ex_db_bulk)"
    by (simp add: generateBulkPayroll_answer falsyNum_def ex_req_bulk_def)
  show ?thesis using a l g by simp
qed

end
